theory Spec2Isabelle
  imports Main "HOL-Library.Sublist"
begin

section \<open>Python values and string operations\<close>

text \<open>
  A Python \<open>str\<close> is a sequence of Unicode code points, and \<open>len\<close> counts code
  points; a string is therefore a list of code points (\<open>nat\<close>). \<open>ustr\<close> turns an
  ASCII literal into such a list.
\<close>

type_synonym pystr = "nat list"

definition ustr :: "string \<Rightarrow> pystr" where
  "ustr s = map of_char s"

text \<open>
  The elements of an argument list: every argument arrives as a \<open>str\<close>, and
  \<open>validate_net_cmd\<close> replaces some of them by an \<open>int\<close> in place.
\<close>

datatype pyval = VStr pystr | VInt int

datatype exn =
    ProtocolError | KeyError | ValueError | IndexError | AttributeError
  | AreaError | OtherError

text \<open>\<open>str(n)\<close> of an integer: its decimal digits, with a minus sign when negative.\<close>

function str_nat :: "nat \<Rightarrow> pystr" where
  "str_nat n = (if n < 10 then [48 + n] else str_nat (n div 10) @ [48 + n mod 10])"
  by pat_completeness auto
termination
  by (relation "measure (\<lambda>n. n)") auto

declare str_nat.simps [simp del]

definition str_int :: "int \<Rightarrow> pystr" where
  "str_int i = (if i < 0 then 45 # str_nat (nat (- i)) else str_nat (nat i))"

fun py_str :: "pyval \<Rightarrow> pystr" where
  "py_str (VStr s) = s"
| "py_str (VInt i) = str_int i"

text \<open>\<open>xs[i]\<close> on a list or tuple. \<open>py_index\<close> is the position the index names: a
  negative index counts from the end, and \<open>None\<close> stands for IndexError. \<open>py_get\<close> reads
  the element there.\<close>

definition py_index :: "'a list \<Rightarrow> int \<Rightarrow> nat option" where
  "py_index xs i =
     (if 0 \<le> i \<and> i < int (length xs) then Some (nat i)
      else if i < 0 \<and> - int (length xs) \<le> i then Some (nat (int (length xs) + i))
      else None)"

definition py_get :: "'a list \<Rightarrow> int \<Rightarrow> 'a option" where
  "py_get xs i = map_option (\<lambda>j. xs ! j) (py_index xs i)"

text \<open>\<open>sub in s\<close> on strings: \<open>sub\<close> occurs in \<open>s\<close> as a contiguous run.\<close>

fun py_contains :: "pystr \<Rightarrow> pystr \<Rightarrow> bool" where
  "py_contains sub [] = (sub = [])"
| "py_contains sub (c # cs) = (prefix sub (c # cs) \<or> py_contains sub cs)"

text \<open>\<open>s.split(sep, 1)\<close>: \<open>None\<close> when \<open>sep\<close> does not occur (the result has one
  element), otherwise the text before the first occurrence and the text after it.\<close>

fun split_once :: "pystr \<Rightarrow> pystr \<Rightarrow> (pystr \<times> pystr) option" where
  "split_once sep [] = None"
| "split_once sep (c # cs) =
     (if prefix sep (c # cs) then Some ([], drop (length sep) (c # cs))
      else (case split_once sep cs of
              None \<Rightarrow> None
            | Some (a, b) \<Rightarrow> Some (c # a, b)))"

text \<open>\<open>s.split(d)\<close> for a separator of one character: never empty.\<close>

fun py_split :: "nat \<Rightarrow> pystr \<Rightarrow> pystr list" where
  "py_split d [] = [[]]"
| "py_split d (c # cs) =
     (if c = d then [] # py_split d cs
      else (case py_split d cs of
              [] \<Rightarrow> [[c]]
            | p # ps \<Rightarrow> (c # p) # ps))"

text \<open>\<open>sep.join(parts)\<close>.\<close>

fun py_join :: "pystr \<Rightarrow> pystr list \<Rightarrow> pystr" where
  "py_join sep [] = []"
| "py_join sep [p] = p"
| "py_join sep (p # q # ps) = p @ sep @ py_join sep (q # ps)"

text \<open>
  Whitespace as \<open>str.strip\<close> and \<open>str.rstrip\<close> see it (the code points for which
  \<open>str.isspace\<close> holds).
\<close>

definition py_isspace :: "nat \<Rightarrow> bool" where
  "py_isspace c =
     ((9 \<le> c \<and> c \<le> 13) \<or> (28 \<le> c \<and> c \<le> 32) \<or> c = 0x85 \<or> c = 0xA0
      \<or> c = 0x1680 \<or> (0x2000 \<le> c \<and> c \<le> 0x200A) \<or> c = 0x2028 \<or> c = 0x2029
      \<or> c = 0x202F \<or> c = 0x205F \<or> c = 0x3000)"

definition py_rstrip :: "pystr \<Rightarrow> pystr" where
  "py_rstrip s = rev (dropWhile py_isspace (rev s))"

definition py_strip :: "pystr \<Rightarrow> pystr" where
  "py_strip s = dropWhile py_isspace (py_rstrip s)"

text \<open>
  The interpreter's own functions whose result depends on the Unicode database or on a
  codec are parameters of the model:
  \<^item> \<open>int_str s\<close> is \<open>int(s)\<close> on a string, \<open>None\<close> when it raises ValueError;
  \<^item> \<open>str_isdigit s\<close> is \<open>s.isdigit()\<close>;
  \<^item> \<open>category_Cf c\<close> is \<open>unicodedata.category(c) == 'Cf'\<close>;
  \<^item> \<open>str_lower s\<close> is \<open>s.lower()\<close>;
  \<^item> \<open>decode_ignore bs\<close> is \<open>bs.decode('utf-8', 'ignore')\<close>.
\<close>

record builtins =
  int_str :: "pystr \<Rightarrow> int option"
  str_isdigit :: "pystr \<Rightarrow> bool"
  category_Cf :: "nat \<Rightarrow> bool"
  str_lower :: "pystr \<Rightarrow> pystr"
  decode_ignore :: "nat list \<Rightarrow> pystr"

text \<open>\<open>int(arg)\<close> on an element of an argument list.\<close>

fun py_int :: "builtins \<Rightarrow> pyval \<Rightarrow> int option" where
  "py_int B (VStr s) = int_str B s"
| "py_int B (VInt i) = Some i"

section \<open>The argument validator\<close>

text \<open>
  \<^verbatim>\<open>
  class ArgType(Enum):
      STR = 1,
      STR_OR_EMPTY = 2,
      INT = 3,
      INT_OR_STR = 3
  \<close>
  The trailing commas make the first three values the tuples \<open>(1,)\<close>, \<open>(2,)\<close> and
  \<open>(3,)\<close>; the last value is the integer \<open>3\<close>. The four values differ, so the enum has
  four members and \<open>INT_OR_STR\<close> is not an alias of \<open>INT\<close>. (The members carry
  the prefix \<open>T_\<close> here: \<open>INT\<close> is reserved syntax.)
\<close>

datatype ArgType = T_STR | T_STR_OR_EMPTY | T_INT | T_INT_OR_STR

text \<open>
  The loop of \<open>validate_net_cmd\<close> over \<open>enumerate(args)\<close>. It returns the verdict and
  the argument list as the loop leaves it: an INT slot that parsed has been replaced by
  its integer, also when a later slot fails. The second equation (more arguments than
  types) is never reached: the caller has compared the lengths.
\<close>

fun validate_loop :: "builtins \<Rightarrow> pyval list \<Rightarrow> ArgType list \<Rightarrow> bool \<times> pyval list" where
  "validate_loop B [] types = (True, [])"
| "validate_loop B (arg # args) [] = (False, arg # args)"
| "validate_loop B (arg # args) (t # types) =
     (if length (py_str arg) = 0 \<and> t \<noteq> T_STR_OR_EMPTY then (False, arg # args)
      else if t = T_INT then
        (case py_int B arg of
           None \<Rightarrow> (False, arg # args)
         | Some n \<Rightarrow>
             (case validate_loop B args types of
                (ok, args') \<Rightarrow> (ok, VInt n # args')))
      else
        (case validate_loop B args types of
           (ok, args') \<Rightarrow> (ok, arg # args')))"

definition validate_net_cmd ::
  "builtins \<Rightarrow> int \<Rightarrow> pyval list \<Rightarrow> ArgType list \<Rightarrow> bool \<Rightarrow> bool \<times> pyval list" where
  "validate_net_cmd B char_id args types needs_auth =
     (if needs_auth \<and> char_id = - 1 then (False, args)
      else if length args \<noteq> length types then (False, args)
      else validate_loop B args types)"

text \<open>
  Reading a validated slot. Every argument arrives from the wire as a string, so after a
  successful validation a slot holds an integer exactly when its type is \<open>INT\<close>
  (lemma \<open>validate_loop_slots\<close> below); the second equation of each projection is never
  used on such a list.
\<close>

fun as_str :: "pyval \<Rightarrow> pystr" where
  "as_str (VStr s) = s"
| "as_str (VInt i) = str_int i"

fun as_int :: "pyval \<Rightarrow> int" where
  "as_int (VInt i) = i"
| "as_int (VStr s) = 0"

section \<open>Clients, areas and the server\<close>

text \<open>
  The objects the protocol reads and writes, with the attributes this file uses.
  Objects are shared and mutable, so the world holds a store of clients and a store of
  areas, and an object refers to another by its key in the store: \<open>area c\<close> is the key
  of the client's area, \<open>clients a\<close> the keys of the area's clients in the order the
  area iterates over them.
\<close>

record evidence =
  evi_name :: pystr
  evi_desc :: pystr
  evi_image :: pystr
  evi_pos :: pystr

record testimony =
  title :: pystr
  statements :: "pyval list list"

record client =
  client_id :: int
  ipid :: pystr
  hdid :: pystr
  is_checked :: bool
  is_muted :: bool
  is_ooc_muted :: bool
  char_id :: int
  char_name :: pystr
  name :: pystr
  fake_name :: pystr
  showname :: pystr
  charcurse :: "int list"
  shaken :: bool
  disemvowel :: bool
  evi_list :: "int list"
  charid_pair :: int
  offset_pair :: pystr
  last_sprite :: pystr
  flip :: int
  claimed_folder :: pystr
  pos :: pystr
  area :: nat

record area =
  area_id :: int
  area_name :: pystr
  area_abbreviation :: pystr
  clients :: "nat list"
  owners :: "nat list"
  afkers :: "nat list"
  showname_changes_allowed :: bool
  blankposting_allowed :: bool
  non_int_pres_only :: bool
  shouts_allowed :: bool
  is_testifying :: bool
  is_examining :: bool
  is_recording :: bool
  examine_index :: int
  testimony :: testimony
  last_ic_message :: "pyval list option"
  evidences :: "evidence list"
  recorded_messages :: "pyval list list"

text \<open>The server: \<open>hostname\<close>, \<open>max_chars\<close> (absent when the key is missing) and
  \<open>playerlimit\<close> are entries of \<open>server.config\<close>.\<close>

record server =
  hostname :: pystr
  max_chars :: "pyval option"
  playerlimit :: pyval
  zalgo_tolerance :: nat
  software :: pystr
  version :: pystr
  player_count :: int

record world =
  cl :: "nat \<Rightarrow> client"
  ar :: "nat \<Rightarrow> area"
  areas :: "nat list"
  server :: server

definition upd_client :: "nat \<Rightarrow> (client \<Rightarrow> client) \<Rightarrow> world \<Rightarrow> world" where
  "upd_client i f w = w\<lparr>cl := (cl w)(i := f (cl w i))\<rparr>"

definition upd_area :: "nat \<Rightarrow> (area \<Rightarrow> area) \<Rightarrow> world \<Rightarrow> world" where
  "upd_area i f w = w\<lparr>ar := (ar w)(i := f (ar w i))\<rparr>"

text \<open>\<open>self.client.area\<close> of the client \<open>me\<close>, read in the current world.\<close>

definition my_area :: "world \<Rightarrow> nat \<Rightarrow> area" where
  "my_area w me = ar w (area (cl w me))"

section \<open>Effects\<close>

text \<open>
  What a handler sends, logs or asks of the transport is recorded, in order, as a list of
  events. \<open>SendCommand c\<close> is \<open>client.send_command\<close> of the client \<open>c\<close>, \<open>SendOOC\<close> is
  \<open>client.send_ooc\<close> (a private notice), \<open>Disconnect\<close> is \<open>client.disconnect()\<close>; the
  \<open>Area...\<close> events are the broadcasts of an area, \<open>SendRemoteCommand\<close> is
  \<open>area_manager.send_remote_command\<close>; the \<open>Db...\<close> events are calls of the
  \<open>database\<close> module, \<open>LogDebug\<close> and \<open>LogException\<close> calls of the loggers.
\<close>

datatype event =
    Disconnect nat
  | SendCommand nat pystr "pyval list"
  | SendOOC nat pystr
  | AreaSendCommand nat pystr "pyval list"
  | AreaSendOwnerCommand nat pystr "pyval list"
  | SendRemoteCommand "int list" pystr "pyval list"
  | BroadcastEvidenceList nat
  | SetNextMsgDelay nat nat
  | SetLastPktTime nat
  | DbAddHdid pystr pystr
  | DbLogConnect nat bool
  | DbLogIc nat nat pystr pystr
  | DbLogRoom pystr nat nat "pystr option"
  | LogDebug pystr pystr
  | LogException

text \<open>
  A step of a handler either goes on with a value (\<open>Next\<close>), ends the handler
  (\<open>Return\<close>, a \<open>return\<close> statement) or raises. It also gives the events of the step and
  the world after it. \<open>and_then\<close> runs the next step after a \<open>Next\<close>.
\<close>

datatype 'a flow = Next 'a | Return | Raise exn

type_synonym 'a step = "'a flow \<times> event list \<times> world"

definition and_then :: "'a step \<Rightarrow> ('a \<Rightarrow> world \<Rightarrow> 'b step) \<Rightarrow> 'b step" where
  "and_then s f =
     (case s of
        (Next x, es, w) \<Rightarrow> (case f x w of (r, es', w') \<Rightarrow> (r, es @ es', w'))
      | (Return, es, w) \<Rightarrow> (Return, es, w)
      | (Raise e, es, w) \<Rightarrow> (Raise e, es, w))"

text \<open>What a handler leaves behind: its events, the exception it raised if any, and the
  world.\<close>

type_synonym outcome = "event list \<times> exn option \<times> world"

definition finish :: "'a step \<Rightarrow> outcome" where
  "finish s =
     (case s of
        (Raise e, es, w) \<Rightarrow> (es, Some e, w)
      | (_, es, w) \<Rightarrow> (es, None, w))"

text \<open>\<open>self.client.send_ooc(text); return\<close>.\<close>

definition notice :: "nat \<Rightarrow> string \<Rightarrow> world \<Rightarrow> 'a step" where
  "notice me s w = (Return, [SendOOC me (ustr s)], w)"

section \<open>Collaborators\<close>

text \<open>
  The methods of the client, the area, the area manager, the database and the command
  registry are not part of this file. A method that only answers is a function of the
  world and its arguments; a method that also changes objects returns the world after
  it; the result of an OOC command says how the call ended.
\<close>

record ban =
  reason :: pystr
  ban_id :: int
  unban_date :: "int option"

datatype cmd_result = CmdDone | CmdError pystr | CmdCrash

record env =
  py :: builtins
  fanta_decrypt :: "pystr \<Rightarrow> exn + pystr"
  find_ban :: "world \<Rightarrow> pystr \<Rightarrow> pystr \<Rightarrow> ban option"
  humanize :: "int \<Rightarrow> pystr"
  can_send_message :: "world \<Rightarrow> nat \<Rightarrow> bool"
  client_can_additive :: "world \<Rightarrow> nat \<Rightarrow> bool"
  is_iniswap :: "world \<Rightarrow> nat \<Rightarrow> pystr \<Rightarrow> pystr \<Rightarrow> pystr \<Rightarrow> pystr \<Rightarrow> bool"
  get_area_by_id :: "world \<Rightarrow> int \<Rightarrow> exn + nat"
  start_testimony :: "world \<Rightarrow> nat \<Rightarrow> pystr \<Rightarrow> bool \<times> world"
  start_examination :: "world \<Rightarrow> nat \<Rightarrow> bool \<times> world"
  end_testimony :: "world \<Rightarrow> nat \<Rightarrow> bool \<times> world"
  amend_testimony :: "world \<Rightarrow> nat \<Rightarrow> int \<Rightarrow> pyval list \<Rightarrow> bool \<times> world"
  remove_statement :: "world \<Rightarrow> nat \<Rightarrow> int \<Rightarrow> bool \<times> world"
  navigate_testimony :: "world \<Rightarrow> nat \<Rightarrow> nat \<Rightarrow> int option \<Rightarrow> world"
  add_statement :: "world \<Rightarrow> nat \<Rightarrow> pyval list \<Rightarrow> bool \<times> world"
  shake_message :: "world \<Rightarrow> nat \<Rightarrow> pystr \<Rightarrow> pystr"
  disemvowel_message :: "world \<Rightarrow> nat \<Rightarrow> pystr \<Rightarrow> pystr"
  toggle_afk :: "world \<Rightarrow> nat \<Rightarrow> world"
  is_valid_name :: "world \<Rightarrow> nat \<Rightarrow> pystr \<Rightarrow> bool"
  ooc_cmd :: "pystr \<Rightarrow> (world \<Rightarrow> nat \<Rightarrow> pystr \<Rightarrow> cmd_result \<times> world) option"
  add_evidence :: "world \<Rightarrow> nat \<Rightarrow> pystr \<Rightarrow> pystr \<Rightarrow> pystr \<Rightarrow> pystr \<Rightarrow> world"
  del_evidence :: "world \<Rightarrow> nat \<Rightarrow> int \<Rightarrow> world"
  edit_evidence :: "world \<Rightarrow> nat \<Rightarrow> int \<Rightarrow> pystr \<times> pystr \<times> pystr \<times> pystr \<Rightarrow> world"
  other_handler :: "pystr \<Rightarrow> nat \<Rightarrow> pystr list \<Rightarrow> world \<Rightarrow> outcome"

section \<open>dezalgo\<close>

text \<open>
  \<^verbatim>\<open>
  re.sub('([\\u0300-\\u036f\\u1ab0-\\u1aff\\u1dc0-\\u1dff\\u20d0-\\u20ff\\ufe20-\\ufe2f'
         + '\\u115f\\u1160\\u3164]' + '{' + re.escape(str(zalgo_tolerance)) + ',})', '', input)
  \<close>
  Every maximal run of characters of the class that is at least \<open>zalgo_tolerance\<close>
  long is removed (the quantifier is greedy, so a match is a whole run); shorter runs
  stay. \<open>dezalgo_run\<close> carries the run read so far. The tolerance is a natural number,
  as the quantifier \<open>{n,}\<close> needs.
\<close>

definition zalgo_char :: "nat \<Rightarrow> bool" where
  "zalgo_char c =
     ((0x0300 \<le> c \<and> c \<le> 0x036F) \<or> (0x1AB0 \<le> c \<and> c \<le> 0x1AFF)
      \<or> (0x1DC0 \<le> c \<and> c \<le> 0x1DFF) \<or> (0x20D0 \<le> c \<and> c \<le> 0x20FF)
      \<or> (0xFE20 \<le> c \<and> c \<le> 0xFE2F) \<or> c = 0x115F \<or> c = 0x1160 \<or> c = 0x3164)"

definition scrub :: "nat \<Rightarrow> pystr \<Rightarrow> pystr" where
  "scrub tolerance run = (if tolerance \<le> length run then [] else run)"

fun dezalgo_run :: "nat \<Rightarrow> pystr \<Rightarrow> pystr \<Rightarrow> pystr" where
  "dezalgo_run tolerance run [] = scrub tolerance run"
| "dezalgo_run tolerance run (c # cs) =
     (if zalgo_char c then dezalgo_run tolerance (run @ [c]) cs
      else scrub tolerance run @ c # dezalgo_run tolerance [] cs)"

definition dezalgo :: "world \<Rightarrow> pystr \<Rightarrow> pystr" where
  "dezalgo w input = dezalgo_run (zalgo_tolerance (server w)) [] input"

section \<open>The IC message handler\<close>

text \<open>
  The local variables of \<open>net_cmd_ms\<close>, each under its name with the prefix \<open>l_\<close>.
  \<open>l_args\<close> is the argument list, which the validator and the testimony commands
  change in place; \<open>l_msg\<close> is the transformed text.
\<close>

record ms_locals =
  l_args :: "pyval list"
  l_target_area :: "int list"
  l_msg_type :: pystr
  l_pre :: pystr
  l_folder :: pystr
  l_anim :: pystr
  l_text :: pystr
  l_pos :: pystr
  l_sfx :: pystr
  l_anim_type :: int
  l_cid :: int
  l_sfx_delay :: int
  l_button :: pyval
  l_evidence :: int
  l_flip :: int
  l_ding :: int
  l_color :: int
  l_showname :: pystr
  l_charid_pair :: int
  l_offset_pair :: pystr
  l_nonint_pre :: int
  l_sfx_looping :: pystr
  l_screenshake :: int
  l_frames_shake :: pystr
  l_frames_realization :: pystr
  l_frames_sfx :: pystr
  l_additive :: int
  l_effect :: pystr
  l_pair_order :: pyval
  l_msg :: pystr

subsection \<open>Preconditions (lines 407-413)\<close>

definition ms_guards :: "env \<Rightarrow> nat \<Rightarrow> world \<Rightarrow> unit step" where
  "ms_guards E me w =
     (if \<not> is_checked (cl w me) then (Return, [], w)
      else if is_muted (cl w me) then notice me ''You are muted by a moderator.'' w
      else if \<not> can_send_message E w me then (Return, [], w)
      else (Next (), [], w))"

subsection \<open>Dialect resolution (lines 415-474)\<close>

definition shape_pre26 :: "ArgType list" where
  "shape_pre26 =
     [T_STR, T_STR_OR_EMPTY, T_STR, T_STR, T_STR_OR_EMPTY, T_STR, T_STR,
      T_INT, T_INT, T_INT, T_INT_OR_STR, T_INT, T_INT, T_INT, T_INT]"

definition shape_26 :: "ArgType list" where
  "shape_26 =
     [T_STR, T_STR_OR_EMPTY, T_STR, T_STR, T_STR_OR_EMPTY, T_STR, T_STR, T_INT,
      T_INT, T_INT, T_INT_OR_STR, T_INT, T_INT, T_INT,
      T_INT, T_STR_OR_EMPTY, T_INT, T_STR, T_INT]"

definition shape_28 :: "ArgType list" where
  "shape_28 =
     [T_STR, T_STR_OR_EMPTY, T_STR, T_STR, T_STR_OR_EMPTY, T_STR, T_STR, T_INT,
      T_INT, T_INT, T_INT_OR_STR, T_INT, T_INT, T_INT,
      T_INT, T_STR_OR_EMPTY, T_STR, T_STR, T_INT, T_STR,
      T_INT, T_STR, T_STR, T_STR, T_INT, T_STR]"

text \<open>The fifteen fields every dialect has, and the initial values of the other
  variables (lines 415-427). The list has at least fifteen elements.\<close>

definition unpack15 :: "pyval list \<Rightarrow> ms_locals" where
  "unpack15 a =
     \<lparr> l_args = a, l_target_area = [],
       l_msg_type = as_str (a ! 0), l_pre = as_str (a ! 1), l_folder = as_str (a ! 2),
       l_anim = as_str (a ! 3), l_text = as_str (a ! 4), l_pos = as_str (a ! 5),
       l_sfx = as_str (a ! 6), l_anim_type = as_int (a ! 7), l_cid = as_int (a ! 8),
       l_sfx_delay = as_int (a ! 9), l_button = a ! 10, l_evidence = as_int (a ! 11),
       l_flip = as_int (a ! 12), l_ding = as_int (a ! 13), l_color = as_int (a ! 14),
       l_showname = [], l_charid_pair = - 1, l_offset_pair = [], l_nonint_pre = 0,
       l_sfx_looping = ustr ''0'', l_screenshake = 0, l_frames_shake = [],
       l_frames_realization = [], l_frames_sfx = [], l_additive = 0, l_effect = [],
       l_pair_order = VInt 0, l_msg = [] \<rparr>"

definition unpack19 :: "pyval list \<Rightarrow> ms_locals" where
  "unpack19 a =
     (unpack15 a)
       \<lparr> l_showname := as_str (a ! 15), l_charid_pair := as_int (a ! 16),
         l_offset_pair := as_str (a ! 17), l_nonint_pre := as_int (a ! 18) \<rparr>"

text \<open>The 2.8 dialect: \<open>charid_pair\<close> is a string slot, split at \<open>^\<close> (94) into the
  paired character id and an optional order; \<open>int(pair_args[0])\<close> is not guarded, so
  its ValueError leaves the handler.\<close>

definition unpack26 :: "builtins \<Rightarrow> pyval list \<Rightarrow> ms_locals flow" where
  "unpack26 B a =
     (let m = (unpack15 a)
                \<lparr> l_showname := as_str (a ! 15), l_offset_pair := as_str (a ! 17),
                  l_nonint_pre := as_int (a ! 18), l_sfx_looping := as_str (a ! 19),
                  l_screenshake := as_int (a ! 20), l_frames_shake := as_str (a ! 21),
                  l_frames_realization := as_str (a ! 22),
                  l_frames_sfx := as_str (a ! 23), l_additive := as_int (a ! 24),
                  l_effect := as_str (a ! 25) \<rparr>;
          pair_args = py_split 94 (as_str (a ! 16))
      in case int_str B (hd pair_args) of
           None \<Rightarrow> Raise ValueError
         | Some n \<Rightarrow>
             Next (m\<lparr> l_charid_pair := n,
                      l_pair_order := (if length pair_args > 1 then VStr (pair_args ! 1)
                                       else VInt 0) \<rparr>))"

definition ms_dialect :: "builtins \<Rightarrow> int \<Rightarrow> pyval list \<Rightarrow> ms_locals flow" where
  "ms_dialect B cid args =
     (case validate_net_cmd B cid args shape_pre26 True of
        (True, a1) \<Rightarrow> Next (unpack15 a1)
      | (False, a1) \<Rightarrow>
          (case validate_net_cmd B cid a1 shape_26 True of
             (True, a2) \<Rightarrow> Next (unpack19 a2)
           | (False, a2) \<Rightarrow>
               (case validate_net_cmd B cid a2 shape_28 True of
                  (True, a3) \<Rightarrow> unpack26 B a3
                | (False, a3) \<Rightarrow> Return)))"

subsection \<open>Additive flag and showname (lines 476-486)\<close>

definition ms_showname :: "env \<Rightarrow> nat \<Rightarrow> ms_locals \<Rightarrow> world \<Rightarrow> ms_locals step" where
  "ms_showname E me m w =
     (let m' = m\<lparr> l_additive :=
                   (if l_additive m = 1 \<and> client_can_additive E w me then 1 else 0) \<rparr>
      in if length (l_showname m') > 0 \<and> \<not> showname_changes_allowed (my_area w me)
         then notice me ''Showname changes are forbidden in this area!'' w
         else (Next m', [], upd_client me (\<lambda>c. c\<lparr> showname := l_showname m' \<rparr>) w))"

subsection \<open>Iniswap, charcurse and blankposting (lines 487-507)\<close>

text \<open>The characters the regular expression \<open>[{}\\`|(~~)]\<close> removes: braces, backslash,
  backquote, bar, parentheses and tilde.\<close>

definition markup_chars :: "nat list" where
  "markup_chars = [123, 125, 92, 96, 124, 40, 126, 41]"

definition ms_policy :: "env \<Rightarrow> nat \<Rightarrow> ms_locals \<Rightarrow> world \<Rightarrow> ms_locals step" where
  "ms_policy E me m w =
     (if is_iniswap E w me (l_pre m) (l_anim m) (l_folder m) (l_sfx m)
      then notice me ''Iniswap/custom emotes are blocked in this area'' w
      else if length (charcurse (cl w me)) > 0 \<and> l_folder m \<noteq> char_name (cl w me)
      then notice me ''You may not iniswap while you are charcursed!'' w
      else if \<not> blankposting_allowed (my_area w me) then
        (if py_strip (l_text m) = []
         then notice me ''Blankposting is forbidden in this area!'' w
         else if length (filter (\<lambda>c. c \<noteq> 32)
                          (filter (\<lambda>c. c \<notin> set markup_chars) (l_text m))) < 3
                 \<and> \<not> prefix (ustr ''<'') (l_text m) \<and> \<not> prefix (ustr ''>'') (l_text m)
         then notice me
           ''While that is not a blankpost, it is still pretty spammy. Try forming sentences.'' w
         else (Next m, [], w))
      else (Next m, [], w))"

subsection \<open>The commands \<open>/a\<close>, \<open>/s\<close>, \<open>/testify\<close> and \<open>/examine\<close> (lines 508-543)\<close>

text \<open>\<open>part[1]\<close> exists in the first branch: the text starts with \<open>'/a '\<close>, so it has a
  space. A ValueError of \<open>get_area_by_id\<close> would be caught with that of \<open>int\<close>; any
  other exception of it leaves the handler.\<close>

definition ms_slash :: "env \<Rightarrow> nat \<Rightarrow> ms_locals \<Rightarrow> world \<Rightarrow> ms_locals step" where
  "ms_slash E me m w =
     (if prefix (ustr ''/a '') (l_text m) then
        (let part = py_split 32 (l_text m)
         in case int_str (py E) (part ! 1) of
              None \<Rightarrow> notice me ''That does not look like a valid area ID!'' w
            | Some aid \<Rightarrow>
                (case get_area_by_id E w aid of
                   Inl x \<Rightarrow>
                     (if x = ValueError
                      then notice me ''That does not look like a valid area ID!'' w
                      else (Raise x, [], w))
                 | Inr a \<Rightarrow>
                     (let target = (if me \<in> set (owners (ar w a))
                                    then l_target_area m @ [aid] else l_target_area m)
                      in if target = []
                         then (Return,
                               [SendOOC me (ustr ''You don't own '' @ area_name (ar w a)
                                            @ ustr ''!'')], w)
                         else (Next (m\<lparr> l_target_area := target,
                                          l_text := py_join [32] (drop 2 part) \<rparr>), [], w))))
      else if prefix (ustr ''/s '') (l_text m) then
        (let part = py_split 32 (l_text m);
             target = l_target_area m
                        @ map (\<lambda>a. area_id (ar w a))
                            (filter (\<lambda>a. me \<in> set (owners (ar w a))) (areas w))
         in if target = [] then notice me ''You don't any areas!'' w
            else (Next (m\<lparr> l_target_area := target,
                             l_text := py_join [32] (drop 1 part) \<rparr>), [], w))
      else if prefix (ustr ''/testify '') (l_text m) then
        (let part = py_split 32 (l_text m);
             t = py_join [32] (drop 1 part)
         in case start_testimony E w me t of
              (False, w') \<Rightarrow> (Return, [], w')
            | (True, w') \<Rightarrow>
                (Next (m\<lparr> l_text := ustr ''~~-- '' @ t @ ustr '' --'', l_color := 3 \<rparr>),
                 [], w'))
      else if prefix (ustr ''/examine'') (l_text m) then
        (case start_examination E w me of
           (False, w') \<Rightarrow> (Return, [], w')
         | (True, w') \<Rightarrow>
             (Next (m\<lparr> l_text := ustr ''~~-- '' @ title (testimony (my_area w' me))
                                    @ ustr '' --'',
                        l_color := 3 \<rparr>), [], w'))
      else (Next m, [], w))"

subsection \<open>Testimony commands (lines 544-589)\<close>

definition ms_testimony_cmd ::
  "env \<Rightarrow> nat \<Rightarrow> ms_locals \<Rightarrow> world \<Rightarrow> ms_locals step" where
  "ms_testimony_cmd E me m w =
     (if prefix (ustr ''/end'') (l_text m) then
        (case end_testimony E w me of
           (False, w') \<Rightarrow> (Return, [], w')
         | (True, w') \<Rightarrow> (Next (m\<lparr> l_text := [] \<rparr>), [], w'))
      else if prefix (ustr ''/amend '') (l_text m) then
        (let part = py_split 32 (l_text m);
             t = py_join [32] (drop 2 part);
             a = (l_args m)[4 := VStr t];
             m' = m\<lparr> l_text := t, l_args := a, l_color := 1 \<rparr>
         in case int_str (py E) (part ! 1) of
              None \<Rightarrow> notice me ''That does not look like a valid statement number!'' w
            | Some index \<Rightarrow>
                (case amend_testimony E w me index a of
                   (False, w') \<Rightarrow> (Return, [], w')
                 | (True, w') \<Rightarrow>
                     (if is_testifying (my_area w' me) then (Return, [], w')
                      else if is_examining (my_area w' me) then
                        (Next m', [],
                         upd_area (area (cl w' me)) (\<lambda>x. x\<lparr> examine_index := index \<rparr>) w')
                      else (Next m', [], w'))))
      else if prefix (ustr ''/add '') (l_text m) \<and> is_examining (my_area w me) then
        (let part = py_split 32 (l_text m);
             t = py_join [32] (drop 1 part);
             a = (l_args m)[4 := VStr t];
             w' = snd (add_statement E w (area (cl w me)) a)
         in (Next (m\<lparr> l_text := t, l_args := a, l_color := 1 \<rparr>), [],
             upd_area (area (cl w' me))
               (\<lambda>x. x\<lparr> examine_index := int (length (statements (testimony x))) - 1 \<rparr>) w'))
      else if prefix (ustr ''/remove '') (l_text m) then
        (let part = py_split 32 (l_text m)
         in case int_str (py E) (part ! 1) of
              None \<Rightarrow> notice me ''That does not look like a valid statement number!'' w
            | Some index \<Rightarrow>
                (case remove_statement E w me index of
                   (False, w') \<Rightarrow> (Return, [], w')
                 | (True, w') \<Rightarrow> (Next (m\<lparr> l_text := [] \<rparr>), [], w')))
      else (Next m, [], w))"

text \<open>Navigation (lines 584-589): \<open>int(text[1:])\<close> failing selects the call without a
  target; either way the handler returns.\<close>

definition ms_navigate :: "env \<Rightarrow> nat \<Rightarrow> ms_locals \<Rightarrow> world \<Rightarrow> ms_locals step" where
  "ms_navigate E me m w =
     (if is_examining (my_area w me) \<and> l_text m \<noteq> []
         \<and> hd (l_text m) \<in> set (ustr ''><='')
      then (Return, [],
            navigate_testimony E w me (hd (l_text m)) (int_str (py E) (tl (l_text m))))
      else (Next m, [], w))"

definition ms_testimony :: "env \<Rightarrow> nat \<Rightarrow> ms_locals \<Rightarrow> world \<Rightarrow> ms_locals step" where
  "ms_testimony E me m w =
     (if is_testifying (my_area w me) \<or> is_examining (my_area w me)
      then and_then (ms_testimony_cmd E me m w) (ms_navigate E me)
      else (Next m, [], w))"

subsection \<open>Field checks (lines 590-611)\<close>

text \<open>Lines 600-602: \<open>button.isdigit()\<close> is a method of \<open>str\<close>; on an integer it would
  raise AttributeError.\<close>

definition ms_button_check :: "builtins \<Rightarrow> pyval \<Rightarrow> unit flow" where
  "ms_button_check B button =
     (if py_contains (ustr ''4'') (py_str button)
         \<and> \<not> py_contains (ustr ''<and>'') (py_str button)
      then (case button of
              VStr b \<Rightarrow> (if \<not> str_isdigit B b then Return else Next ())
            | VInt i \<Rightarrow> Raise AttributeError)
      else Next ())"

definition ms_checks :: "env \<Rightarrow> nat \<Rightarrow> ms_locals \<Rightarrow> world \<Rightarrow> ms_locals step" where
  "ms_checks E me m0 w =
     (if l_msg_type m0 \<notin> set (map ustr [''chat'', ''0'', ''1'', ''2'', ''3'', ''4'', ''5''])
      then (Return, [], w)
      else
        (let m = (if l_anim_type m0 = 4 then m0\<lparr> l_anim_type := 6 \<rparr> else m0)
         in if l_anim_type m \<notin> {0, 1, 2, 5, 6} then (Return, [], w)
            else if l_cid m \<noteq> char_id (cl w me) then (Return, [], w)
            else if l_sfx_delay m < 0 then (Return, [], w)
            else
              (case ms_button_check (py E) (l_button m) of
                 Return \<Rightarrow> (Return, [], w)
               | Raise x \<Rightarrow> (Raise x, [], w)
               | Next u \<Rightarrow>
                   (if l_evidence m < 0 then (Return, [], w)
                    else if l_ding m \<notin> {0, 1} then (Return, [], w)
                    else if l_color m \<notin> {0, 1, 2, 3, 4, 5, 6, 7, 8} then (Return, [], w)
                    else if length (l_showname m) > 15
                    then notice me ''Your IC showname is way too long!'' w
                    else (Next m, [], w)))))"

subsection \<open>Downgrades (lines 612-634)\<close>

text \<open>Lines 612-617. \<open>button in (1, 2, 3, 4, 23)\<close> compares the button with five
  integers; a string equals none of them.\<close>

definition ms_nonint_pre :: "ms_locals \<Rightarrow> ms_locals" where
  "ms_nonint_pre m =
     (if l_nonint_pre m = 1 then
        (if l_button m \<in> set [VInt 1, VInt 2, VInt 3, VInt 4, VInt 23] then
           (if l_anim_type m = 1 \<or> l_anim_type m = 2 then m\<lparr> l_anim_type := 0 \<rparr>
            else if l_anim_type m = 6 then m\<lparr> l_anim_type := 5 \<rparr>
            else m)
         else m)
      else m)"

text \<open>Lines 618-624.\<close>

definition ms_non_int_pres_only :: "area \<Rightarrow> ms_locals \<Rightarrow> ms_locals" where
  "ms_non_int_pres_only a m =
     (if non_int_pres_only a then
        (if l_anim_type m = 1 \<or> l_anim_type m = 2
         then m\<lparr> l_anim_type := 0, l_nonint_pre := 1 \<rparr>
         else if l_anim_type m = 6 then m\<lparr> l_anim_type := 5, l_nonint_pre := 1 \<rparr>
         else m)
      else m)"

text \<open>Lines 625-634.\<close>

definition ms_shouts :: "area \<Rightarrow> ms_locals \<Rightarrow> ms_locals" where
  "ms_shouts a m =
     (if \<not> shouts_allowed a then
        (let m' = (if l_anim_type m = 2 then m\<lparr> l_anim_type := 1 \<rparr>
                   else if l_anim_type m = 6 then m\<lparr> l_anim_type := 5 \<rparr>
                   else m)
         in m'\<lparr> l_button := VInt 0, l_ding := 0 \<rparr>)
      else m)"

definition ms_downgrade :: "nat \<Rightarrow> ms_locals \<Rightarrow> world \<Rightarrow> ms_locals step" where
  "ms_downgrade me m w =
     (Next (ms_shouts (my_area w me) (ms_non_int_pres_only (my_area w me) (ms_nonint_pre m))),
      [], w)"

subsection \<open>Length cap and text transformation (lines 636-650)\<close>

text \<open>\<open>int(self.server.config['max_chars'])\<close> under a bare \<open>except\<close>: a missing key or a
  value that does not parse gives 256.\<close>

definition get_max_char :: "builtins \<Rightarrow> server \<Rightarrow> int" where
  "get_max_char B srv =
     (case max_chars srv of
        None \<Rightarrow> 256
      | Some v \<Rightarrow> (case py_int B v of None \<Rightarrow> 256 | Some n \<Rightarrow> n))"

definition ms_transform :: "env \<Rightarrow> nat \<Rightarrow> ms_locals \<Rightarrow> world \<Rightarrow> ms_locals step" where
  "ms_transform E me m w =
     (if int (length (l_text m)) > get_max_char (py E) (server w) then (Return, [], w)
      else
        (let msg0 = take 256 (dezalgo w (l_text m));
             msg1 = (if shaken (cl w me) then shake_message E w me msg0 else msg0);
             msg2 = (if disemvowel (cl w me) then disemvowel_message E w me msg1 else msg1)
         in (Next (m\<lparr> l_msg := msg2 \<rparr>), [], w)))"

subsection \<open>The repeat guard (lines 652-656)\<close>

text \<open>
  \<^verbatim>\<open>
  if msg.strip() != '' and self.client.area.last_ic_message is not None
     and cid == self.client.area.last_ic_message[8]
     and msg.rstrip() == self.client.area.last_ic_message[4].rstrip():
  \<close>
  The conjuncts are evaluated from the left; a tuple without an element 8 raises
  IndexError, an element 4 that is not a string raises AttributeError.
\<close>

definition ms_repeat_guard :: "nat \<Rightarrow> ms_locals \<Rightarrow> world \<Rightarrow> ms_locals step" where
  "ms_repeat_guard me m w =
     (if py_strip (l_msg m) \<noteq> [] then
        (case last_ic_message (my_area w me) of
           None \<Rightarrow> (Next m, [], w)
         | Some lm \<Rightarrow>
             (case py_get lm 8 of
                None \<Rightarrow> (Raise IndexError, [], w)
              | Some c \<Rightarrow>
                  (if VInt (l_cid m) = c then
                     (case py_get lm 4 of
                        None \<Rightarrow> (Raise IndexError, [], w)
                      | Some (VInt i) \<Rightarrow> (Raise AttributeError, [], w)
                      | Some (VStr t) \<Rightarrow>
                          (if py_rstrip (l_msg m) = py_rstrip t
                           then notice me
                             ''Your message is a repeat of the last one. Don't spam!'' w
                           else (Next m, [], w)))
                   else (Next m, [], w))))
      else (Next m, [], w))"

subsection \<open>Evidence (lines 658-663)\<close>

definition ms_evidence :: "nat \<Rightarrow> ms_locals \<Rightarrow> world \<Rightarrow> ms_locals step" where
  "ms_evidence me m w =
     (if l_evidence m \<notin> set (evi_list (cl w me)) then (Next (m\<lparr> l_evidence := 0 \<rparr>), [], w)
      else if l_evidence m \<noteq> 0 then
        (case py_get (evi_list (cl w me)) (l_evidence m) of
           None \<Rightarrow> (Raise IndexError, [], w)
         | Some k \<Rightarrow>
             (case py_index (evidences (my_area w me)) (k - 1) of
                None \<Rightarrow> (Raise IndexError, [], w)
              | Some j \<Rightarrow>
                  (if evi_pos (evidences (my_area w me) ! j) \<noteq> ustr ''all'' then
                     (Next m, [BroadcastEvidenceList (area (cl w me))],
                      upd_area (area (cl w me))
                        (\<lambda>x. x\<lparr> evidences :=
                                   (evidences x)[j := (evidences x ! j)\<lparr> evi_pos := ustr ''all'' \<rparr>] \<rparr>)
                        w)
                   else (Next m, [], w))))
      else (Next m, [], w))"

subsection \<open>Pairing (lines 666-695)\<close>

text \<open>Lines 670-675: the sender's own pairing fields are stored first.\<close>

definition ms_store_pair :: "nat \<Rightarrow> ms_locals \<Rightarrow> world \<Rightarrow> world" where
  "ms_store_pair me m w =
     upd_client me
       (\<lambda>c. (if l_anim_type m \<notin> {5, 6}
              then c\<lparr> charid_pair := l_charid_pair m, offset_pair := l_offset_pair m,
                      last_sprite := l_anim m \<rparr>
              else c\<lparr> charid_pair := l_charid_pair m, offset_pair := l_offset_pair m \<rparr>)
               \<lparr> flip := l_flip m, claimed_folder := l_folder m \<rparr>) w"

text \<open>The loop over \<open>self.client.area.clients\<close> (lines 683-692): the first client that
  matches, if any. \<open>target != self.client\<close> compares objects, here their keys.\<close>

fun pair_scan :: "world \<Rightarrow> nat \<Rightarrow> nat list \<Rightarrow> nat option" where
  "pair_scan w me [] = None"
| "pair_scan w me (target # rest) =
     (if char_id (cl w target) = charid_pair (cl w me)
         \<and> charid_pair (cl w target) = char_id (cl w me)
         \<and> target \<noteq> me
         \<and> pos (cl w target) = pos (cl w me)
      then Some target
      else pair_scan w me rest)"

record pairing =
  confirmed :: bool
  pair_charid :: pyval
  other_offset :: pystr
  other_emote :: pystr
  other_flip :: int
  other_folder :: pystr

text \<open>Lines 676-695. \<open>pair_order\<close> is the integer 0 unless the 2.8 dialect gave an
  order, and \<open>0 != ""\<close> holds, so a confirmed pair id is always rewritten as
  \<open>"{}^{}".format(charid_pair, pair_order)\<close> unless the order given is the empty
  string.\<close>

definition ms_pairing :: "world \<Rightarrow> nat \<Rightarrow> int \<Rightarrow> pyval \<Rightarrow> pairing" where
  "ms_pairing w me cp pair_order =
     (case (if cp > - 1 then pair_scan w me (clients (my_area w me)) else None) of
        None \<Rightarrow>
          \<lparr> confirmed = False, pair_charid = VInt (- 1), other_offset = ustr ''0'',
            other_emote = [], other_flip = 0, other_folder = [] \<rparr>
      | Some target \<Rightarrow>
          \<lparr> confirmed = True,
            pair_charid = (if pair_order \<noteq> VStr []
                           then VStr (str_int cp @ ustr ''^'' @ py_str pair_order)
                           else VInt cp),
            other_offset = offset_pair (cl w target),
            other_emote = last_sprite (cl w target),
            other_flip = flip (cl w target),
            other_folder = claimed_folder (cl w target) \<rparr>)"

subsection \<open>Broadcast (lines 697-729)\<close>

definition send_args :: "ms_locals \<Rightarrow> pairing \<Rightarrow> int \<Rightarrow> pyval list" where
  "send_args m p evi =
     [VStr (l_msg_type m), VStr (l_pre m), VStr (l_folder m), VStr (l_anim m),
      VStr (l_msg m), VStr (l_pos m), VStr (l_sfx m), VInt (l_anim_type m),
      VInt (l_cid m), VInt (l_sfx_delay m), l_button m, VInt evi,
      VInt (l_flip m), VInt (l_ding m), VInt (l_color m), VStr (l_showname m),
      pair_charid p, VStr (other_folder p), VStr (other_emote p),
      VStr (l_offset_pair m), VStr (other_offset p), VInt (other_flip p),
      VInt (l_nonint_pre m), VStr (l_sfx_looping m), VInt (l_screenshake m),
      VStr (l_frames_shake m), VStr (l_frames_realization m), VStr (l_frames_sfx m),
      VInt (l_additive m), VStr (l_effect m)]"

definition ms_broadcast :: "env \<Rightarrow> nat \<Rightarrow> ms_locals \<Rightarrow> world \<Rightarrow> ms_locals step" where
  "ms_broadcast E me m w =
     (let w1 = ms_store_pair me m w;
          p = ms_pairing w1 me (l_charid_pair m) (l_pair_order m);
          w2 = (if me \<in> set (afkers (my_area w1 me)) then toggle_afk E w1 me else w1)
      in case py_get (evi_list (cl w2 me)) (l_evidence m) of
           None \<Rightarrow> (Raise IndexError, [], w2)
         | Some evi \<Rightarrow>
             (let sa = send_args m p evi;
                  a = area (cl w2 me);
                  w3 = upd_area a (\<lambda>x. x\<lparr> last_ic_message := Some sa \<rparr>) w2;
                  es = [AreaSendCommand a (ustr ''MS'') sa,
                        SendRemoteCommand (l_target_area m) (ustr ''MS'') sa,
                        AreaSendOwnerCommand a (ustr ''MS'')
                          (take 4 sa
                           @ [VStr (ustr ''['' @ area_abbreviation (ar w3 a) @ ustr '']''
                                    @ l_msg m)]
                           @ drop 5 sa),
                        SetNextMsgDelay a (length (l_msg m)),
                        DbLogIc me a (l_showname m) (l_msg m)];
                  w4 = (if is_recording (ar w3 a)
                        then upd_area a
                               (\<lambda>x. x\<lparr> recorded_messages := recorded_messages x @ [l_args m] \<rparr>)
                               w3
                        else w3)
              in if is_testifying (ar w4 a) then
                   (case add_statement E w4 a sa of
                      (True, w5) \<Rightarrow> (Return, es, w5)
                    | (False, w5) \<Rightarrow>
                        (Return,
                         es @ [SendOOC me (ustr
                           ''That statement was not recorded because you reached the statement limit.'')],
                         w5))
                 else (Return, es, w4)))"

subsection \<open>The handler\<close>

text \<open>The handler after dialect resolution, in the order of the source: the steps up
  to the field checks (lines 476-611), then the rest (lines 612-729).\<close>

definition ms_front :: "env \<Rightarrow> nat \<Rightarrow> ms_locals \<Rightarrow> world \<Rightarrow> ms_locals step" where
  "ms_front E me m w =
     and_then (and_then (and_then (and_then
       (ms_showname E me m w)
       (ms_policy E me)) (ms_slash E me)) (ms_testimony E me)) (ms_checks E me)"

definition ms_back :: "env \<Rightarrow> nat \<Rightarrow> ms_locals \<Rightarrow> world \<Rightarrow> ms_locals step" where
  "ms_back E me m w =
     and_then (and_then (and_then (and_then
       (ms_downgrade me m w)
       (ms_transform E me)) (ms_repeat_guard me)) (ms_evidence me)) (ms_broadcast E me)"

definition ms_pipeline :: "env \<Rightarrow> nat \<Rightarrow> ms_locals \<Rightarrow> world \<Rightarrow> ms_locals step" where
  "ms_pipeline E me m w = and_then (ms_front E me m w) (ms_back E me)"

definition net_cmd_ms :: "env \<Rightarrow> nat \<Rightarrow> pystr list \<Rightarrow> world \<Rightarrow> outcome" where
  "net_cmd_ms E me args w =
     finish
       (and_then (and_then (ms_guards E me w)
          (\<lambda>u w'. (ms_dialect (py E) (char_id (cl w' me)) (map VStr args), [], w')))
          (ms_pipeline E me))"

section \<open>The handshake (lines 208-249)\<close>

text \<open>
  \<open>find_ban\<close> is \<open>database.find_ban\<close> and \<open>humanize d\<close> is
  \<open>arrow.get(d).humanize()\<close>. For a ban without a date the handler binds the string
  \<open>'N/A'\<close> to \<open>unban_date\<close> and then evaluates \<open>unban_date.humanize()\<close>, which a
  string does not have: AttributeError, raised while the message is built, before
  anything is logged or sent.
\<close>

definition ban_message :: "env \<Rightarrow> ban \<Rightarrow> int \<Rightarrow> pystr" where
  "ban_message E b d =
     reason b @ [13, 10] @ ustr ''ID: '' @ str_int (ban_id b) @ [13, 10]
     @ ustr ''Until: '' @ humanize E d"

definition net_cmd_hi :: "env \<Rightarrow> nat \<Rightarrow> pystr list \<Rightarrow> world \<Rightarrow> outcome" where
  "net_cmd_hi E me args w =
     (if is_checked (cl w me) then ([Disconnect me], None, w)
      else
        (case validate_net_cmd (py E) (char_id (cl w me)) (map VStr args) [T_STR] False of
           (False, a) \<Rightarrow> ([], None, w)
         | (True, a) \<Rightarrow>
             (let h = as_str (a ! 0);
                  w1 = upd_client me (\<lambda>c. c\<lparr> hdid := h \<rparr>) w;
                  ip = ipid (cl w1 me);
                  e1 = [DbAddHdid ip h]
              in case find_ban E w1 ip h of
                   Some b \<Rightarrow>
                     (case unban_date b of
                        None \<Rightarrow> (e1, Some AttributeError, w1)
                      | Some d \<Rightarrow>
                          (e1 @ [DbLogConnect me True,
                                 SendCommand me (ustr ''BD'') [VStr (ban_message E b d)],
                                 Disconnect me],
                           None, w1))
                 | None \<Rightarrow>
                     (let w2 = upd_client me (\<lambda>c. c\<lparr> is_checked := True \<rparr>) w1
                      in (e1 @ [DbLogConnect me False,
                                SendCommand me (ustr ''ID'')
                                  [VInt (client_id (cl w2 me)), VStr (software (server w2)),
                                   VStr (version (server w2))],
                                SendCommand me (ustr ''PN'')
                                  [VInt (player_count (server w2)), playerlimit (server w2)]],
                          None, w2)))))"

section \<open>The OOC message handler (lines 731-810)\<close>

text \<open>Lines 745-750: the name given becomes the client's name only if it is new and
  \<open>is_valid_name\<close> accepts it.\<close>

definition ct_set_name :: "env \<Rightarrow> nat \<Rightarrow> pystr \<Rightarrow> world \<Rightarrow> world" where
  "ct_set_name E me a0 w =
     (if name (cl w me) \<noteq> a0 \<and> fake_name (cl w me) \<noteq> a0 then
        (if is_valid_name E w me a0
         then upd_client me (\<lambda>c. c\<lparr> name := a0, fake_name := a0 \<rparr>) w
         else upd_client me (\<lambda>c. c\<lparr> fake_name := a0 \<rparr>) w)
      else w)"

text \<open>Lines 780-797: a message that starts with a slash is given to the command
  registry. \<open>ooc_cmd E cmd\<close> is \<open>None\<close> when \<open>commands\<close> has no function
  \<open>ooc_cmd_<cmd>\<close>.\<close>

definition ct_command :: "env \<Rightarrow> nat \<Rightarrow> pystr \<Rightarrow> world \<Rightarrow> outcome" where
  "ct_command E me a1 w =
     (let spl = split_once [32] (tl a1);
          cmd = str_lower (py E) (case spl of None \<Rightarrow> tl a1 | Some (x, y) \<Rightarrow> x);
          arg = (case spl of None \<Rightarrow> [] | Some (x, y) \<Rightarrow> take 256 y)
      in case ooc_cmd E cmd of
           None \<Rightarrow> ([SendOOC me (ustr ''Invalid command.'')], None, w)
         | Some f \<Rightarrow>
             (case f w me arg of
                (CmdDone, w') \<Rightarrow> ([], None, w')
              | (CmdError text, w') \<Rightarrow> ([SendOOC me text], None, w')
              | (CmdCrash, w') \<Rightarrow>
                  ([SendOOC me
                      (ustr ''An internal error occurred. Please check the server log.''),
                    LogException], None, w')))"

text \<open>Lines 798-810: plain chat.\<close>

definition ct_chat :: "env \<Rightarrow> nat \<Rightarrow> pystr \<Rightarrow> world \<Rightarrow> outcome" where
  "ct_chat E me a1 w =
     (let t0 = dezalgo w a1;
          t1 = (if shaken (cl w me) then shake_message E w me t0 else t0);
          t2 = (if disemvowel (cl w me) then disemvowel_message E w me t1 else t1);
          a = area (cl w me)
      in ([AreaSendCommand a (ustr ''CT'') [VStr (name (cl w me)), VStr t2],
           AreaSendOwnerCommand a (ustr ''CT'')
             [VStr (ustr ''['' @ area_abbreviation (ar w a) @ ustr '']'' @ name (cl w me)),
              VStr t2],
           DbLogRoom (ustr ''ooc'') me a (Some t2)],
          None, w))"

text \<open>Lines 751-768: the checks of the client's name, in order; the notice of the first
  one that fails, or \<open>None\<close>.\<close>

definition ct_name_notice :: "env \<Rightarrow> nat \<Rightarrow> world \<Rightarrow> string option" where
  "ct_name_notice E me w =
     (if name (cl w me) = []
      then Some ''You must insert a name with at least one letter''
      else if length (name (cl w me)) > 30
      then Some ''Your OOC name is too long! Limit it to 30 characters.''
      else if list_ex (category_Cf (py E)) (name (cl w me))
      then Some ''You cannot use format characters in your name!''
      else if prefix (hostname (server w)) (name (cl w me))
              \<or> prefix (ustr ''<dollar>G'') (name (cl w me))
              \<or> prefix (ustr ''<dollar>M'') (name (cl w me))
      then Some ''That name is reserved!''
      else None)"

text \<open>Lines 769-810: the message, once the name has passed.\<close>

definition ct_message :: "env \<Rightarrow> nat \<Rightarrow> pystr \<Rightarrow> world \<Rightarrow> outcome" where
  "ct_message E me a1 w =
     (if int (length a1) > get_max_char (py E) (server w) then ([], None, w)
      else if prefix (ustr '' /'') a1
      then ([SendOOC me (ustr
         ''Your message was not sent for safety reasons: you left a space before that slash.'')],
            None, w)
      else if prefix (ustr ''/'') a1 then ct_command E me a1 w
      else ct_chat E me a1 w)"

definition net_cmd_ct :: "env \<Rightarrow> nat \<Rightarrow> pystr list \<Rightarrow> world \<Rightarrow> outcome" where
  "net_cmd_ct E me args w0 =
     (if \<not> is_checked (cl w0 me) then ([], None, w0)
      else if is_ooc_muted (cl w0 me)
      then ([SendOOC me (ustr ''You are muted by a moderator.'')], None, w0)
      else
        (case validate_net_cmd (py E) (char_id (cl w0 me)) (map VStr args)
                [T_STR, T_STR] False of
           (False, a) \<Rightarrow> ([], None, w0)
         | (True, a) \<Rightarrow>
             (let w = ct_set_name E me (as_str (a ! 0)) w0
              in case ct_name_notice E me w of
                   Some text \<Rightarrow> ([SendOOC me (ustr text)], None, w)
                 | None \<Rightarrow> ct_message E me (as_str (a ! 1)) w)))"

text \<open>\<open>opKICK\<close> and \<open>opBAN\<close> (lines 1129-1141) go through the OOC handler;
  \<open>args[0]\<close> of an empty list raises IndexError.\<close>

definition net_cmd_opKICK :: "env \<Rightarrow> nat \<Rightarrow> pystr list \<Rightarrow> world \<Rightarrow> outcome" where
  "net_cmd_opKICK E me args w =
     (case args of
        [] \<Rightarrow> ([], Some IndexError, w)
      | a # rest \<Rightarrow> net_cmd_ct E me [ustr ''opkick'', ustr ''/kick '' @ a] w)"

definition net_cmd_opBAN :: "env \<Rightarrow> nat \<Rightarrow> pystr list \<Rightarrow> world \<Rightarrow> outcome" where
  "net_cmd_opBAN E me args w =
     (case args of
        [] \<Rightarrow> ([], Some IndexError, w)
      | a # rest \<Rightarrow> net_cmd_ct E me [ustr ''opban'', ustr ''/ban '' @ a] w)"

section \<open>Evidence (lines 1029-1082)\<close>

text \<open>The three handlers call \<open>validate_net_cmd\<close> without \<open>needs_auth\<close>, whose
  default is \<open>True\<close>. \<open>add_evidence\<close>, \<open>del_evidence\<close> and \<open>edit_evidence\<close> are the
  methods of the area's evidence list.\<close>

definition net_cmd_pe :: "env \<Rightarrow> nat \<Rightarrow> pystr list \<Rightarrow> world \<Rightarrow> outcome" where
  "net_cmd_pe E me args w =
     (if \<not> is_checked (cl w me) then ([], None, w)
      else
        (case validate_net_cmd (py E) (char_id (cl w me)) (map VStr args)
                [T_STR_OR_EMPTY, T_STR_OR_EMPTY, T_STR_OR_EMPTY] True of
           (False, a) \<Rightarrow> ([], None, w)
         | (True, a) \<Rightarrow>
             (if length a < 3 then ([], None, w)
              else
                (let w1 = add_evidence E w me (as_str (a ! 0)) (as_str (a ! 1))
                            (as_str (a ! 2)) (ustr ''all'')
                 in ([DbLogRoom (ustr ''evidence.add'') me (area (cl w1 me)) None,
                      BroadcastEvidenceList (area (cl w1 me))],
                     None, w1)))))"

definition net_cmd_de :: "env \<Rightarrow> nat \<Rightarrow> pystr list \<Rightarrow> world \<Rightarrow> outcome" where
  "net_cmd_de E me args w =
     (if \<not> is_checked (cl w me) then ([], None, w)
      else
        (case validate_net_cmd (py E) (char_id (cl w me)) (map VStr args) [T_INT] True of
           (False, a) \<Rightarrow> ([], None, w)
         | (True, a) \<Rightarrow>
             (case py_get (evi_list (cl w me)) (as_int (a ! 0)) of
                None \<Rightarrow> ([], Some IndexError, w)
              | Some k \<Rightarrow>
                  (let w1 = del_evidence E w me k
                   in ([DbLogRoom (ustr ''evidence.del'') me (area (cl w1 me)) None,
                        BroadcastEvidenceList (area (cl w1 me))],
                       None, w1)))))"

definition net_cmd_ee :: "env \<Rightarrow> nat \<Rightarrow> pystr list \<Rightarrow> world \<Rightarrow> outcome" where
  "net_cmd_ee E me args w =
     (if \<not> is_checked (cl w me) then ([], None, w)
      else
        (case validate_net_cmd (py E) (char_id (cl w me)) (map VStr args)
                [T_INT, T_STR_OR_EMPTY, T_STR_OR_EMPTY, T_STR_OR_EMPTY] True of
           (False, a) \<Rightarrow> ([], None, w)
         | (True, a) \<Rightarrow>
             (if length a < 4 then ([], None, w)
              else
                (case py_get (evi_list (cl w me)) (as_int (a ! 0)) of
                   None \<Rightarrow> ([], Some IndexError, w)
                 | Some k \<Rightarrow>
                     (let evi = (as_str (a ! 1), as_str (a ! 2), as_str (a ! 3), ustr ''all'');
                          w1 = edit_evidence E w me k evi
                      in ([DbLogRoom (ustr ''evidence.edit'') me (area (cl w1 me)) None,
                           BroadcastEvidenceList (area (cl w1 me))],
                          None, w1))))))"

section \<open>Frames and dispatch (lines 83-129, 169-182, 1143-1169)\<close>

text \<open>The dispatch table, with its twenty-five commands in the order of the source. The
  handlers this file does not model are the parameter \<open>other_handler\<close>, under the
  command's name.\<close>

definition net_cmd_dispatcher ::
  "env \<Rightarrow> (pystr \<times> (nat \<Rightarrow> pystr list \<Rightarrow> world \<Rightarrow> outcome)) list" where
  "net_cmd_dispatcher E =
     [(ustr ''HI'', net_cmd_hi E),
      (ustr ''ID'', other_handler E (ustr ''ID'')),
      (ustr ''CH'', other_handler E (ustr ''CH'')),
      (ustr ''askchaa'', other_handler E (ustr ''askchaa'')),
      (ustr ''askchar2'', other_handler E (ustr ''askchar2'')),
      (ustr ''AN'', other_handler E (ustr ''AN'')),
      (ustr ''AE'', other_handler E (ustr ''AE'')),
      (ustr ''AM'', other_handler E (ustr ''AM'')),
      (ustr ''RC'', other_handler E (ustr ''RC'')),
      (ustr ''RM'', other_handler E (ustr ''RM'')),
      (ustr ''RD'', other_handler E (ustr ''RD'')),
      (ustr ''CC'', other_handler E (ustr ''CC'')),
      (ustr ''MS'', net_cmd_ms E),
      (ustr ''CT'', net_cmd_ct E),
      (ustr ''MC'', other_handler E (ustr ''MC'')),
      (ustr ''RT'', other_handler E (ustr ''RT'')),
      (ustr ''SETCASE'', other_handler E (ustr ''SETCASE'')),
      (ustr ''CASEA'', other_handler E (ustr ''CASEA'')),
      (ustr ''HP'', other_handler E (ustr ''HP'')),
      (ustr ''PE'', net_cmd_pe E),
      (ustr ''DE'', net_cmd_de E),
      (ustr ''EE'', net_cmd_ee E),
      (ustr ''ZZ'', other_handler E (ustr ''ZZ'')),
      (ustr ''opKICK'', net_cmd_opKICK E),
      (ustr ''opBAN'', net_cmd_opBAN E)]"

text \<open>Lines 113-117: a frame that starts with \<open>#\<close>, \<open>3\<close> or \<open>4\<close> has its first field
  decrypted; \<open>fanta_decrypt\<close> may raise.\<close>

definition decode_msg :: "env \<Rightarrow> pystr \<Rightarrow> exn + pystr" where
  "decode_msg E msg =
     (if hd msg \<in> set (ustr ''#34'') then
        (let m1 = (if hd msg = 35 then tl msg else msg)
         in case split_once [35] m1 of
              None \<Rightarrow> fanta_decrypt E m1
            | Some (x, y) \<Rightarrow>
                (case fanta_decrypt E x of
                   Inl e \<Rightarrow> Inl e
                 | Inr d \<Rightarrow> Inr (d @ [35] @ y)))
      else Inr msg)"

text \<open>Lines 123-127: the \<open>except KeyError\<close> clause, after the events \<open>es\<close> of the
  handler if one ran. \<open>ip\<close> is \<open>ipid\<close> as \<open>data_received\<close> read it on entry.\<close>

definition on_key_error :: "nat \<Rightarrow> pystr \<Rightarrow> pystr \<Rightarrow> event list \<Rightarrow> world \<Rightarrow> outcome" where
  "on_key_error me ip msg es w =
     (es @ [LogDebug ip msg],
      (if \<not> is_checked (cl w me) then Some ProtocolError else None), w)"

text \<open>The body of the loop over the frames (lines 110-127).\<close>

definition handle_msg :: "env \<Rightarrow> nat \<Rightarrow> pystr \<Rightarrow> pystr \<Rightarrow> world \<Rightarrow> outcome" where
  "handle_msg E me ip msg0 w =
     (if length msg0 < 2 then ([], None, w)
      else
        (case decode_msg E msg0 of
           Inl e \<Rightarrow> ([], Some e, w)
         | Inr msg \<Rightarrow>
             (case map_of (net_cmd_dispatcher E) (hd (py_split 35 msg)) of
                None \<Rightarrow> on_key_error me ip msg [] w
              | Some handler \<Rightarrow>
                  (case handler me (tl (py_split 35 msg)) w of
                     (es, Some e, w') \<Rightarrow>
                       (if e = KeyError then on_key_error me ip msg es w'
                        else (es, Some e, w'))
                   | (es, None, w') \<Rightarrow>
                       ((if hd (py_split 35 msg) \<noteq> ustr ''CH''
                         then es @ [SetLastPktTime me] else es),
                        None, w')))))"

text \<open>
  \<open>get_messages\<close> is a generator. Its first step checks the header
  (\<open>get_messages_header\<close>, lines 175-177); each later step is one round of the loop
  (\<open>get_messages_next\<close>, lines 179-182): the frame before the first terminator, and the
  buffer after it.
\<close>

definition get_messages_header :: "pystr \<Rightarrow> exn option" where
  "get_messages_header buffer =
     (if length buffer \<ge> 24 \<and> 35 \<notin> set (take 24 buffer) then Some ProtocolError else None)"

definition get_messages_next :: "pystr \<Rightarrow> (pystr \<times> pystr) option" where
  "get_messages_next buffer = split_once (ustr ''#%'') buffer"

lemma split_once_shorter:
  "split_once sep xs = Some (a, b) \<Longrightarrow> sep \<noteq> [] \<Longrightarrow> length b < length xs"
proof (induction xs arbitrary: a b)
  case Nil
  then show ?case by simp
next
  case (Cons c cs)
  show ?case
  proof (cases "prefix sep (c # cs)")
    case True
    with Cons.prems show ?thesis by (cases sep) auto
  next
    case False
    with Cons.prems obtain a' where "split_once sep cs = Some (a', b)"
      by (auto split: option.splits)
    with Cons.IH Cons.prems(2) show ?thesis by fastforce
  qed
qed

text \<open>The \<open>for\<close> loop of \<open>data_received\<close>: it stops at the first exception that leaves
  the body, with the buffer as the generator left it.\<close>

function process_messages ::
  "env \<Rightarrow> nat \<Rightarrow> pystr \<Rightarrow> pystr \<Rightarrow> world \<Rightarrow> event list \<times> exn option \<times> pystr \<times> world" where
  "process_messages E me ip buffer w =
     (case get_messages_next buffer of
        None \<Rightarrow> ([], None, buffer, w)
      | Some (msg, rest) \<Rightarrow>
          (case handle_msg E me ip msg w of
             (es, Some e, w') \<Rightarrow> (es, Some e, rest, w')
           | (es, None, w') \<Rightarrow>
               (case process_messages E me ip rest w' of
                  (es', x, b, w'') \<Rightarrow> (es @ es', x, b, w''))))"
  by pat_completeness auto
termination
  by (relation "measure (\<lambda>(E, me, ip, buffer, w). length buffer)")
     (auto simp: get_messages_next_def ustr_def dest: split_once_shorter)

declare process_messages.simps [simp del]

text \<open>What arrives: \<open>None\<close>, bytes, or (the \<open>isinstance\<close> test of line 98) a string.\<close>

datatype net_data = DataNone | DataBytes "nat list" | DataStr pystr

text \<open>Lines 92-104: bytes are decoded and appended, a string replaces the buffer, and
  null characters are removed.\<close>

definition receive_buffer :: "builtins \<Rightarrow> pystr \<Rightarrow> net_data \<Rightarrow> pystr" where
  "receive_buffer B buffer data =
     filter (\<lambda>c. c \<noteq> 0)
       (case data of
          DataNone \<Rightarrow> buffer @ decode_ignore B []
        | DataBytes bs \<Rightarrow> buffer @ decode_ignore B bs
        | DataStr s \<Rightarrow> s)"

text \<open>\<open>data_received\<close>: the events, the exception that leaves it if any (ProtocolError
  is caught and answered by a disconnect), the buffer and the world afterwards.\<close>

definition data_received ::
  "env \<Rightarrow> nat \<Rightarrow> pystr \<Rightarrow> net_data \<Rightarrow> world \<Rightarrow> event list \<times> exn option \<times> pystr \<times> world" where
  "data_received E me buffer0 data w =
     (let ip = ipid (cl w me);
          buffer = receive_buffer (py E) buffer0 data;
          e0 = (if length buffer > 8192 then [Disconnect me] else [])
      in case get_messages_header buffer of
           Some e \<Rightarrow>
             (if e = ProtocolError then (e0 @ [Disconnect me], None, buffer, w)
              else (e0, Some e, buffer, w))
         | None \<Rightarrow>
             (case process_messages E me ip buffer w of
                (es, Some e, b, w') \<Rightarrow>
                  (if e = ProtocolError then (e0 @ es @ [Disconnect me], None, b, w')
                   else (e0 @ es, Some e, b, w'))
              | (es, None, b, w') \<Rightarrow> (e0 @ es, None, b, w')))"

section \<open>A sample server\<close>

text \<open>
  A concrete instance of the parameters and a small world, on which the theorems below
  are exercised: an \<open>int\<close> that reads an optional minus sign and ASCII digits, three
  connected clients in one area (two with the characters 1 and 2, standing at the same
  position, and a spectator), and a fourth client that has not sent its handshake. The
  hardware id \<open>banned\<close> has a ban without a date, \<open>tempban\<close> one with a date.
\<close>

definition ascii_digits :: "pystr \<Rightarrow> bool" where
  "ascii_digits s = (s \<noteq> [] \<and> list_all (\<lambda>c. 48 \<le> c \<and> c \<le> 57) s)"

definition ascii_nat :: "pystr \<Rightarrow> nat" where
  "ascii_nat s = foldl (\<lambda>n c. 10 * n + (c - 48)) 0 s"

definition ascii_int :: "pystr \<Rightarrow> int option" where
  "ascii_int s =
     (case s of
        [] \<Rightarrow> None
      | c # cs \<Rightarrow>
          (if c = 45 then (if ascii_digits cs then Some (- int (ascii_nat cs)) else None)
           else if ascii_digits s then Some (int (ascii_nat s))
           else None))"

definition py0 :: builtins where
  "py0 =
     \<lparr> int_str = ascii_int, str_isdigit = ascii_digits, category_Cf = (\<lambda>c. c = 0xAD),
       str_lower = map (\<lambda>c. if 65 \<le> c \<and> c \<le> 90 then c + 32 else c),
       decode_ignore = (\<lambda>bs. bs) \<rparr>"

definition env0 :: env where
  "env0 =
     \<lparr> py = py0,
       fanta_decrypt = Inr,
       find_ban = (\<lambda>w ip h.
         if h = ustr ''banned''
         then Some \<lparr> reason = ustr ''spam'', ban_id = 7, unban_date = None \<rparr>
         else if h = ustr ''tempban''
         then Some \<lparr> reason = ustr ''spam'', ban_id = 8, unban_date = Some 1700000000 \<rparr>
         else None),
       humanize = (\<lambda>d. ustr ''in 2 days''),
       can_send_message = (\<lambda>w c. True),
       client_can_additive = (\<lambda>w c. True),
       is_iniswap = (\<lambda>w c pre anim folder sfx. False),
       get_area_by_id = (\<lambda>w i. if i = 0 then Inr 0 else Inl AreaError),
       start_testimony = (\<lambda>w c t. (True, w)),
       start_examination = (\<lambda>w c. (True, w)),
       end_testimony = (\<lambda>w c. (True, w)),
       amend_testimony = (\<lambda>w c i a. (True, w)),
       remove_statement = (\<lambda>w c i. (True, w)),
       navigate_testimony = (\<lambda>w c d i. w),
       add_statement = (\<lambda>w a s. (True, w)),
       shake_message = (\<lambda>w c s. s),
       disemvowel_message = (\<lambda>w c s. s),
       toggle_afk = (\<lambda>w c. w),
       is_valid_name = (\<lambda>w c n. True),
       ooc_cmd = (\<lambda>c. None),
       add_evidence = (\<lambda>w c n d i p.
         upd_area (area (cl w c))
           (\<lambda>a. a\<lparr> evidences := evidences a
                      @ [\<lparr> evi_name = n, evi_desc = d, evi_image = i, evi_pos = p \<rparr>] \<rparr>) w),
       del_evidence = (\<lambda>w c k. w),
       edit_evidence = (\<lambda>w c k e. w),
       other_handler = (\<lambda>n c a w. ([], None, w)) \<rparr>"

definition client0 :: client where
  "client0 =
     \<lparr> client_id = 0, ipid = ustr ''ip0'', hdid = [], is_checked = True, is_muted = False,
       is_ooc_muted = False, char_id = 1, char_name = ustr ''Phoenix'', name = ustr ''alice'',
       fake_name = ustr ''alice'', showname = [], charcurse = [], shaken = False,
       disemvowel = False, evi_list = [0], charid_pair = - 1, offset_pair = [],
       last_sprite = [], flip = 0, claimed_folder = [], pos = ustr ''wit'', area = 0 \<rparr>"

definition client1 :: client where
  "client1 =
     client0\<lparr> client_id := 1, ipid := ustr ''ip1'', char_id := 2, char_name := ustr ''Edgeworth'',
              name := ustr ''bob'', fake_name := ustr ''bob'', charid_pair := 1,
              offset_pair := ustr ''10'', last_sprite := ustr ''normal'', flip := 1,
              claimed_folder := ustr ''Edgeworth'' \<rparr>"

definition client2 :: client where
  "client2 =
     client0\<lparr> client_id := 2, ipid := ustr ''ip2'', char_id := - 1, char_name := [],
              name := ustr ''carol'', fake_name := ustr ''carol'' \<rparr>"

definition client3 :: client where
  "client3 =
     client0\<lparr> client_id := 3, ipid := ustr ''ip3'', is_checked := False, char_id := - 1,
              char_name := [], name := [], fake_name := [] \<rparr>"

definition area0 :: area where
  "area0 =
     \<lparr> area_id = 0, area_name = ustr ''Lobby'', area_abbreviation = ustr ''LB'',
       clients = [0, 1, 2], owners = [], afkers = [],
       showname_changes_allowed = True, blankposting_allowed = False,
       non_int_pres_only = False, shouts_allowed = True, is_testifying = False,
       is_examining = False, is_recording = False, examine_index = 0,
       testimony = \<lparr> title = [], statements = [] \<rparr>, last_ic_message = None,
       evidences = [], recorded_messages = [] \<rparr>"

definition server0 :: server where
  "server0 =
     \<lparr> hostname = ustr ''Server'', max_chars = Some (VInt 256), playerlimit = VInt 100,
       zalgo_tolerance = 3, software = ustr ''tsuserver'', version = ustr ''3'',
       player_count = 3 \<rparr>"

definition world0 :: world where
  "world0 =
     \<lparr> cl = (\<lambda>i. if i = 0 then client0 else if i = 1 then client1
                 else if i = 2 then client2 else client3),
       ar = (\<lambda>i. area0), areas = [0], server = server0 \<rparr>"

text \<open>An IC message of the 2.6 dialect (nineteen fields) from the character 1, asking
  to be paired with the character 2, with a given text and showname.\<close>

definition ms_args26 :: "pystr \<Rightarrow> pystr \<Rightarrow> pystr list" where
  "ms_args26 text sn =
     [ustr ''chat'', ustr ''-'', ustr ''Phoenix'', ustr ''normal'', text, ustr ''wit'',
      ustr ''1'', ustr ''1'', ustr ''1'', ustr ''0'', ustr ''1'', ustr ''0'', ustr ''0'',
      ustr ''0'', ustr ''0'', sn, ustr ''2'', ustr ''5'', ustr ''1'']"

text \<open>The local variables of that message once the 2.6 dialect has validated and the
  text has been transformed; the sample world with blank posts allowed; the sample world
  with the client 1 moved to another position.\<close>

definition locals0 :: ms_locals where
  "locals0 =
     (unpack19 (snd (validate_net_cmd py0 1
                       (map VStr (ms_args26 (ustr ''Hello there'') (ustr ''Nick'')))
                       shape_26 True)))
       \<lparr> l_msg := ustr ''Hello there'' \<rparr>"

definition world_blank :: world where
  "world_blank = upd_area 0 (\<lambda>a. a\<lparr> blankposting_allowed := True \<rparr>) world0"

definition world_apart :: world where
  "world_apart = upd_client 1 (\<lambda>c. c\<lparr> pos := ustr ''def'' \<rparr>) world0"

lemmas sample_defs =
  env0_def py0_def world0_def client0_def client1_def client2_def client3_def area0_def
  server0_def ascii_int_def ascii_digits_def ascii_nat_def ms_args26_def ustr_def

lemmas ms_defs =
  net_cmd_ms_def ms_guards_def ms_dialect_def validate_net_cmd_def shape_pre26_def
  shape_26_def shape_28_def unpack15_def unpack19_def unpack26_def ms_pipeline_def
  ms_front_def ms_back_def ms_showname_def ms_policy_def ms_slash_def ms_testimony_def
  ms_testimony_cmd_def ms_navigate_def ms_checks_def ms_button_check_def ms_downgrade_def
  ms_nonint_pre_def ms_non_int_pres_only_def ms_shouts_def ms_transform_def
  get_max_char_def ms_repeat_guard_def ms_evidence_def ms_broadcast_def ms_store_pair_def
  ms_pairing_def send_args_def and_then_def finish_def notice_def upd_client_def
  upd_area_def my_area_def py_get_def py_index_def py_strip_def py_rstrip_def
  py_isspace_def markup_chars_def dezalgo_def zalgo_char_def scrub_def str_int_def

lemmas locals0_defs = locals0_def unpack19_def unpack15_def validate_net_cmd_def shape_26_def

section \<open>Properties of the string operations and of the validator\<close>

lemma str_nat_nonempty: "str_nat n \<noteq> []"
  by (induction n rule: str_nat.induct) (subst str_nat.simps, simp)

text \<open>\<open>s.split(d)\<close> always has a first element, and a second one when \<open>d\<close> occurs in
  \<open>s\<close>: the reads \<open>hd (py_split d s)\<close> and \<open>py_split d s ! 1\<close> of the handlers are in
  range.\<close>

lemma py_split_not_Nil: "py_split d s \<noteq> []"
  by (induction s) (auto split: list.splits)

lemma py_split_two: "d \<in> set s \<Longrightarrow> 2 \<le> length (py_split d s)"
proof (induction s)
  case Nil
  then show ?case by simp
next
  case (Cons c cs)
  show ?case
  proof (cases "c = d")
    case True
    have "py_split d cs \<noteq> []" by (rule py_split_not_Nil)
    then have "1 \<le> length (py_split d cs)" by (cases "py_split d cs") auto
    with True show ?thesis by simp
  next
    case False
    with Cons have "2 \<le> length (py_split d cs)" by simp
    with False show ?thesis by (cases "py_split d cs") auto
  qed
qed

lemma validate_loop_length: "length (snd (validate_loop B a t)) = length a"
  by (induction B a t rule: validate_loop.induct) (auto split: option.splits prod.splits)

lemma validate_loop_length': "validate_loop B a t = (ok, a') \<Longrightarrow> length a' = length a"
  using validate_loop_length[of B a t] by simp

lemma validate_loop_slots:
  "validate_loop B (map VStr ss) types = (True, a) \<Longrightarrow> length ss = length types \<Longrightarrow> i < length ss \<Longrightarrow>
     (types ! i = T_INT \<longrightarrow> (\<exists>n. a ! i = VInt n \<and> int_str B (ss ! i) = Some n))
     \<and> (types ! i \<noteq> T_INT \<longrightarrow> a ! i = VStr (ss ! i))
     \<and> (types ! i \<noteq> T_STR_OR_EMPTY \<longrightarrow> ss ! i \<noteq> [])"
proof (induction ss arbitrary: types a i)
  case Nil
  then show ?case by simp
next
  case (Cons s ss)
  then obtain t ts where types: "types = t # ts" by (cases types) auto
  show ?case
  proof (cases i)
    case 0
    with Cons.prems types show ?thesis
      by (auto split: if_splits option.splits prod.splits)
  next
    case (Suc j)
    from Cons.prems types obtain a' x where a: "a = x # a'" and rec: "validate_loop B (map VStr ss) ts = (True, a')"
      by (auto split: if_splits option.splits prod.splits)
    from Cons.IH[OF rec, of j] Cons.prems types Suc a show ?thesis by simp
  qed
qed

lemma shape_lengths: "length shape_pre26 = 15" "length shape_26 = 19" "length shape_28 = 26"
  by (simp_all add: shape_pre26_def shape_26_def shape_28_def)

lemma shape_button: "shape_pre26 ! 10 = T_INT_OR_STR" "shape_26 ! 10 = T_INT_OR_STR" "shape_28 ! 10 = T_INT_OR_STR"
  by (simp_all add: shape_pre26_def shape_26_def shape_28_def)

lemma ms_dialect_cases:
  assumes "ms_dialect B c (map VStr ss) = Next m"
  shows "(\<exists>a. validate_loop B (map VStr ss) shape_pre26 = (True, a) \<and> length ss = 15 \<and> m = unpack15 a)
     \<or> (\<exists>a. validate_loop B (map VStr ss) shape_26 = (True, a) \<and> length ss = 19 \<and> m = unpack19 a)
     \<or> (\<exists>a. validate_loop B (map VStr ss) shape_28 = (True, a) \<and> length ss = 26 \<and> unpack26 B a = Next m)"
proof -
  have len: "\<And>t. length (snd (validate_loop B (map VStr ss) t)) = length ss"
    by (simp add: validate_loop_length)
  consider "length ss = 15" | "length ss = 19" | "length ss = 26"
    | "length ss \<noteq> 15" "length ss \<noteq> 19" "length ss \<noteq> 26" by blast
  then show ?thesis
  proof cases
    case 1
    obtain ok a where v: "validate_loop B (map VStr ss) shape_pre26 = (ok, a)" by (cases "validate_loop B (map VStr ss) shape_pre26")
    with len[of shape_pre26] 1 have "length a = 15" by simp
    with assms 1 v show ?thesis
      by (cases ok) (auto simp: ms_dialect_def validate_net_cmd_def shape_lengths split: if_splits)
  next
    case 2
    with assms show ?thesis
      by (auto simp: ms_dialect_def validate_net_cmd_def shape_lengths split: if_splits prod.splits bool.splits
               dest: validate_loop_length')
  next
    case 3
    with assms show ?thesis
      by (auto simp: ms_dialect_def validate_net_cmd_def shape_lengths split: if_splits prod.splits bool.splits)
  next
    case 4
    with assms show ?thesis
      by (auto simp: ms_dialect_def validate_net_cmd_def shape_lengths split: if_splits prod.splits bool.splits)
  qed
qed

lemma unpack_button: "l_button (unpack15 a) = a ! 10" "l_button (unpack19 a) = a ! 10"
  "unpack26 B a = Next m \<Longrightarrow> l_button m = a ! 10"
  by (auto simp: unpack15_def unpack19_def unpack26_def Let_def split: option.splits)

lemma ms_dialect_button:
  assumes "ms_dialect B c (map VStr ss) = Next m"
  shows "10 < length ss \<and> l_button m = VStr (ss ! 10) \<and> ss ! 10 \<noteq> []"
  using ms_dialect_cases[OF assms]
proof (elim disjE exE conjE)
  fix a assume v: "validate_loop B (map VStr ss) shape_pre26 = (True, a)" and l: "length ss = 15" and m: "m = unpack15 a"
  from validate_loop_slots[OF v, of 10] l m show ?thesis by (simp add: shape_lengths shape_button unpack_button)
next
  fix a assume v: "validate_loop B (map VStr ss) shape_26 = (True, a)" and l: "length ss = 19" and m: "m = unpack19 a"
  from validate_loop_slots[OF v, of 10] l m show ?thesis by (simp add: shape_lengths shape_button unpack_button)
next
  fix a assume v: "validate_loop B (map VStr ss) shape_28 = (True, a)" and l: "length ss = 26" and m: "unpack26 B a = Next m"
  from validate_loop_slots[OF v, of 10] l unpack_button(3)[OF m] show ?thesis by (simp add: shape_lengths shape_button)
qed

lemma and_then_NextD:
  "and_then s f = (Next y, es, w) \<Longrightarrow>
     \<exists>x es1 w1 es2. s = (Next x, es1, w1) \<and> f x w1 = (Next y, es2, w) \<and> es = es1 @ es2"
  by (auto simp: and_then_def split: prod.splits flow.splits)

lemma ms_showname_button: "ms_showname E me m w = (Next m', es, w') \<Longrightarrow> l_button m' = l_button m"
  by (auto simp: ms_showname_def Let_def notice_def split: if_splits)

lemma ms_policy_button: "ms_policy E me m w = (Next m', es, w') \<Longrightarrow> l_button m' = l_button m"
  by (auto simp: ms_policy_def Let_def notice_def split: if_splits)

lemma ms_slash_button: "ms_slash E me m w = (Next m', es, w') \<Longrightarrow> l_button m' = l_button m"
  by (auto simp: ms_slash_def Let_def notice_def split: if_splits option.splits sum.splits prod.splits bool.splits)

lemma ms_testimony_cmd_button: "ms_testimony_cmd E me m w = (Next m', es, w') \<Longrightarrow> l_button m' = l_button m"
  by (auto simp: ms_testimony_cmd_def Let_def notice_def split: if_splits option.splits prod.splits bool.splits)

lemma ms_navigate_button: "ms_navigate E me m w = (Next m', es, w') \<Longrightarrow> l_button m' = l_button m"
  by (auto simp: ms_navigate_def split: if_splits)

lemma ms_testimony_button:
  assumes "ms_testimony E me m w = (Next m', es, w')"
  shows "l_button m' = l_button m"
proof (cases "is_testifying (my_area w me) \<or> is_examining (my_area w me)")
  case True
  with assms have "and_then (ms_testimony_cmd E me m w) (ms_navigate E me) = (Next m', es, w')"
    by (simp add: ms_testimony_def)
  from and_then_NextD[OF this] obtain x es1 w1 es2 where
    "ms_testimony_cmd E me m w = (Next x, es1, w1)" "ms_navigate E me x w1 = (Next m', es2, w')"
    by blast
  then show ?thesis using ms_testimony_cmd_button ms_navigate_button by metis
next
  case False
  with assms show ?thesis by (simp add: ms_testimony_def)
qed

lemma ms_checks_button: "ms_checks E me m w = (Next m', es, w') \<Longrightarrow> l_button m' = l_button m"
  by (auto simp: ms_checks_def Let_def notice_def split: if_splits flow.splits)

lemma ms_front_button:
  assumes "ms_front E me m w = (Next m', es, w')"
  shows "l_button m' = l_button m"
proof -
  from assms[unfolded ms_front_def, THEN and_then_NextD] obtain m4 e4 w4 e5 where
      s4: "and_then (and_then (and_then (ms_showname E me m w) (ms_policy E me)) (ms_slash E me))
             (ms_testimony E me) = (Next m4, e4, w4)"
    and c: "ms_checks E me m4 w4 = (Next m', e5, w')"
    by blast
  from s4[THEN and_then_NextD] obtain m3 e3 w3 e4' where
      s3: "and_then (and_then (ms_showname E me m w) (ms_policy E me)) (ms_slash E me) = (Next m3, e3, w3)"
    and t: "ms_testimony E me m3 w3 = (Next m4, e4', w4)"
    by blast
  from s3[THEN and_then_NextD] obtain m2 e2 w2 e3' where
      s2: "and_then (ms_showname E me m w) (ms_policy E me) = (Next m2, e2, w2)"
    and sl: "ms_slash E me m2 w2 = (Next m3, e3', w3)"
    by blast
  from s2[THEN and_then_NextD] obtain m1 e1 w1 e2' where
      s1: "ms_showname E me m w = (Next m1, e1, w1)"
    and p: "ms_policy E me m1 w1 = (Next m2, e2', w2)"
    by blast
  from ms_showname_button[OF s1] ms_policy_button[OF p] ms_slash_button[OF sl]
       ms_testimony_button[OF t] ms_checks_button[OF c]
  show ?thesis by simp
qed

section \<open>C10: an INT_OR_STR slot is validated like a STR slot\<close>

text \<open>
  C10. In \<open>validate_net_cmd\<close> a slot of type \<open>INT_OR_STR\<close> is treated exactly like a
  \<open>STR\<close> slot: the argument is accepted precisely when it is not the empty string, and
  it is never converted (\<open>INT_OR_STR\<close> is a member of its own, not \<open>INT\<close>). So after
  any dialect of the IC message has validated, the button is still a string; it stays
  one up to line 612, the test \<open>button in (1, 2, 3, 4, 23)\<close> fails there, and the
  downgrade of lines 612-617 changes nothing.
\<close>

theorem int_or_str_validated_as_str:
  "validate_loop B (arg # args) (T_INT_OR_STR # types) = validate_loop B (arg # args) (T_STR # types)
   \<and> validate_loop B (VStr s # args) (T_INT_OR_STR # types) =
       (if s = [] then (False, VStr s # args)
        else (case validate_loop B args types of (ok, args') \<Rightarrow> (ok, VStr s # args')))
   \<and> T_INT_OR_STR \<noteq> T_INT
   \<and> (ms_dialect (py E) c (map VStr ss) = Next m \<longrightarrow> (\<exists>b. b \<noteq> [] \<and> l_button m = VStr b))
   \<and> (ms_dialect (py E) c (map VStr ss) = Next m \<and> ms_front E me m w = (Next m', es, w') \<longrightarrow>
        l_button m' \<notin> set [VInt 1, VInt 2, VInt 3, VInt 4, VInt 23] \<and> ms_nonint_pre m' = m')"
proof (intro conjI impI)
  show "validate_loop B (arg # args) (T_INT_OR_STR # types) = validate_loop B (arg # args) (T_STR # types)"
    by simp
  show "validate_loop B (VStr s # args) (T_INT_OR_STR # types) =
       (if s = [] then (False, VStr s # args)
        else (case validate_loop B args types of (ok, args') \<Rightarrow> (ok, VStr s # args')))"
    by simp
  show "T_INT_OR_STR \<noteq> T_INT" by simp
next
  assume "ms_dialect (py E) c (map VStr ss) = Next m"
  from ms_dialect_button[OF this] show "\<exists>b. b \<noteq> [] \<and> l_button m = VStr b" by blast
next
  assume a: "ms_dialect (py E) c (map VStr ss) = Next m \<and> ms_front E me m w = (Next m', es, w')"
  then have b: "l_button m' = VStr (ss ! 10)"
    using ms_dialect_button[of "py E" c ss m] ms_front_button[of E me m w m' es w'] by simp
  then show "l_button m' \<notin> set [VInt 1, VInt 2, VInt 3, VInt 4, VInt 23]" by simp
  from b show "ms_nonint_pre m' = m'" by (simp add: ms_nonint_pre_def)
qed

theorem int_or_str_validated_as_str_witness:
  "validate_loop py0 [VStr (ustr ''1'')] [T_INT_OR_STR] = (True, [VStr (ustr ''1'')])
   \<and> (\<exists>m m' es w'.
         ms_dialect (py env0) 1 (map VStr (ms_args26 (ustr ''Hello there'') (ustr ''Nick''))) = Next m
         \<and> ms_front env0 0 m world0 = (Next m', es, w')
         \<and> l_nonint_pre m' = 1 \<and> l_anim_type m' = 1 \<and> l_button m' = VStr (ustr ''1'')
         \<and> ms_nonint_pre m' = m')"
proof -
  have "\<exists>m m' es w'.
         ms_dialect (py env0) 1 (map VStr (ms_args26 (ustr ''Hello there'') (ustr ''Nick''))) = Next m
         \<and> ms_front env0 0 m world0 = (Next m', es, w')
         \<and> l_nonint_pre m' = 1 \<and> l_anim_type m' = 1 \<and> l_button m' = VStr (ustr ''1'')"
    by (simp add: ms_defs sample_defs Let_def)
  then obtain m m' es w' where
      d: "ms_dialect (py env0) 1 (map VStr (ms_args26 (ustr ''Hello there'') (ustr ''Nick''))) = Next m"
    and f: "ms_front env0 0 m world0 = (Next m', es, w')"
    and r: "l_nonint_pre m' = 1" "l_anim_type m' = 1" "l_button m' = VStr (ustr ''1'')"
    by blast
  from int_or_str_validated_as_str[of py0 "VStr (ustr ''1'')" "[]" "[]" "ustr ''1''" env0 1
         "ms_args26 (ustr ''Hello there'') (ustr ''Nick'')" m 0 world0 m' es w'] d f
  have "validate_loop py0 [VStr (ustr ''1'')] [T_INT_OR_STR] = validate_loop py0 [VStr (ustr ''1'')] [T_STR]"
    and "ms_nonint_pre m' = m'" by simp_all
  then show ?thesis using d f r by (auto simp: ustr_def)
qed


section \<open>Frames, buffer and dispatch\<close>

lemmas recv_defs = data_received_def receive_buffer_def get_messages_header_def get_messages_next_def
  handle_msg_def decode_msg_def on_key_error_def net_cmd_dispatcher_def

text \<open>
  C7. Whenever the buffer (after appending and null-stripping) has at least 24 characters
  and no \<open>#\<close> among its first 24, frame extraction raises ProtocolError, whatever
  follows, and \<open>data_received\<close> answers by disconnecting the client: no frame is
  handled, the world is unchanged. A buffer with a \<open>#\<close> among its first 24 characters
  raises no such error.
\<close>

theorem framing_violation:
  assumes "buffer = receive_buffer (py E) buffer0 data"
  shows "(24 \<le> length buffer \<and> 35 \<notin> set (take 24 buffer) \<longrightarrow>
            get_messages_header buffer = Some ProtocolError
            \<and> data_received E me buffer0 data w =
                ((if length buffer > 8192 then [Disconnect me] else []) @ [Disconnect me],
                 None, buffer, w))
         \<and> (35 \<in> set (take 24 buffer) \<longrightarrow> get_messages_header buffer = None)"
  using assms by (simp add: data_received_def get_messages_header_def Let_def)

theorem framing_violation_witness:
  "data_received env0 3 [] (DataStr (ustr ''GET /index.html HTTP/1.1 '')) world0 =
     ([Disconnect 3], None, ustr ''GET /index.html HTTP/1.1 '', world0)
   \<and> get_messages_header (ustr ''HI#0123456789abcdef0123456789#%'') = None"
  using framing_violation[of "ustr ''GET /index.html HTTP/1.1 ''" env0 "[]"
          "DataStr (ustr ''GET /index.html HTTP/1.1 '')" 3 world0]
        framing_violation[of "ustr ''HI#0123456789abcdef0123456789#%''" env0 "[]"
          "DataStr (ustr ''HI#0123456789abcdef0123456789#%'')" 3 world0]
  by (simp add: receive_buffer_def ustr_def)

text \<open>
  C8. Whenever the buffer is longer than 8192 characters after appending and
  null-stripping, \<open>data_received\<close> disconnects the client, first of all and whatever the
  buffer holds (with or without a terminator).
\<close>

theorem oversized_buffer_disconnects:
  assumes "length (receive_buffer (py E) buffer0 data) > 8192"
  shows "\<exists>es x b w'. data_received E me buffer0 data w = (Disconnect me # es, x, b, w')"
  using assms
  by (auto simp: data_received_def Let_def split: option.splits prod.splits)

theorem oversized_buffer_disconnects_witness:
  "8192 < length (receive_buffer (py env0) (ustr ''CH#%'') (DataBytes (replicate 8200 65)))
   \<and> (\<exists>es x b w'. data_received env0 0 (ustr ''CH#%'') (DataBytes (replicate 8200 65)) world0
                     = (Disconnect 0 # es, x, b, w'))"
proof -
  have h: "8192 < length (receive_buffer (py env0) (ustr ''CH#%'') (DataBytes (replicate 8200 65)))"
    by (simp add: receive_buffer_def env0_def py0_def ustr_def)
  from oversized_buffer_disconnects[OF h] h show ?thesis by blast
qed

text \<open>
  C4, as amended. A frame of at least two characters whose command name (the first field
  after legacy decoding) is not in the dispatch table is logged; if the client is not
  authenticated, ProtocolError ends the loop and the client is disconnected without any
  reply; if it is authenticated, nothing else happens and the loop goes on with the rest
  of the buffer. (A frame of fewer than two characters is skipped by line 110, before
  dispatch.)
\<close>

theorem unknown_command:
  assumes "2 \<le> length msg0" and "decode_msg E msg0 = Inr msg"
    and "map_of (net_cmd_dispatcher E) (hd (py_split 35 msg)) = None"
  shows "handle_msg E me ip msg0 w =
           ([LogDebug ip msg], (if is_checked (cl w me) then None else Some ProtocolError), w)
         \<and> (get_messages_next buffer = Some (msg0, rest) \<and> \<not> is_checked (cl w me) \<longrightarrow>
              process_messages E me ip buffer w = ([LogDebug ip msg], Some ProtocolError, rest, w))
         \<and> (get_messages_next buffer = Some (msg0, rest) \<and> is_checked (cl w me) \<longrightarrow>
              process_messages E me ip buffer w =
                (case process_messages E me ip rest w of
                   (es, x, b, w') \<Rightarrow> (LogDebug ip msg # es, x, b, w')))
         \<and> (get_messages_next (receive_buffer (py E) buffer0 data) = Some (msg0, rest)
              \<and> get_messages_header (receive_buffer (py E) buffer0 data) = None
              \<and> \<not> is_checked (cl w me) \<longrightarrow>
              data_received E me buffer0 data w =
                ((if length (receive_buffer (py E) buffer0 data) > 8192 then [Disconnect me] else [])
                 @ [LogDebug (ipid (cl w me)) msg, Disconnect me], None, rest, w))
         \<and> (get_messages_next (receive_buffer (py E) buffer0 data) = Some (msg0, rest)
              \<and> get_messages_next rest = None
              \<and> get_messages_header (receive_buffer (py E) buffer0 data) = None
              \<and> is_checked (cl w me) \<longrightarrow>
              data_received E me buffer0 data w =
                ((if length (receive_buffer (py E) buffer0 data) > 8192 then [Disconnect me] else [])
                 @ [LogDebug (ipid (cl w me)) msg], None, rest, w))
         \<and> (length short < 2 \<longrightarrow>
              handle_msg E me ip short w = ([], None, w)
              \<and> (get_messages_next buffer = Some (short, rest) \<longrightarrow>
                   process_messages E me ip buffer w = process_messages E me ip rest w))"
proof -
  have h: "\<And>ip. handle_msg E me ip msg0 w =
           ([LogDebug ip msg], (if is_checked (cl w me) then None else Some ProtocolError), w)"
    using assms by (simp add: handle_msg_def on_key_error_def)
  have k: "length short < 2 \<longrightarrow> handle_msg E me ip short w = ([], None, w)"
    by (simp add: handle_msg_def)
  show ?thesis
    by (auto simp: h k process_messages.simps[of E me _ buffer]
          process_messages.simps[of E me _ "receive_buffer (py E) buffer0 data"]
          process_messages.simps[of E me _ rest] data_received_def Let_def
          split: prod.splits)
qed

text \<open>
  The claim C4 as stated fails on a frame of one character: \<open>X\<close> is not a command of the
  table, the client 3 is not authenticated, and the frame is skipped by line 110 without
  a disconnect.
\<close>

theorem short_unknown_frame_is_skipped:
  "map_of (net_cmd_dispatcher env0) (ustr ''X'') = None \<and> \<not> is_checked (cl world0 3)
   \<and> data_received env0 3 [] (DataBytes (ustr ''X#%'')) world0 = ([], None, [], world0)"
  by (simp add: recv_defs process_messages.simps sample_defs)

theorem unknown_command_witness:
  "data_received env0 3 [] (DataBytes (ustr ''XX#1#%HI#abc#%'')) world0 =
      ([LogDebug (ustr ''ip3'') (ustr ''XX#1''), Disconnect 3], None, ustr ''HI#abc#%'', world0)
   \<and> data_received env0 0 [] (DataBytes (ustr ''XX#1#%'')) world0 =
      ([LogDebug (ustr ''ip0'') (ustr ''XX#1'')], None, [], world0)"
proof -
  have a: "2 \<le> length (ustr ''XX#1'')" "decode_msg env0 (ustr ''XX#1'') = Inr (ustr ''XX#1'')"
     "map_of (net_cmd_dispatcher env0) (hd (py_split 35 (ustr ''XX#1''))) = None"
    by (simp_all add: recv_defs sample_defs)
  have b: "get_messages_next (receive_buffer (py env0) [] (DataBytes (ustr ''XX#1#%HI#abc#%''))) = Some (ustr ''XX#1'', ustr ''HI#abc#%'')"
     "get_messages_header (receive_buffer (py env0) [] (DataBytes (ustr ''XX#1#%HI#abc#%''))) = None"
     "\<not> is_checked (cl world0 3)" "is_checked (cl world0 0)"
    by (simp_all add: recv_defs sample_defs)
  from unknown_command[OF a, of 3 _ world0 _ _ "[]" "DataBytes (ustr ''XX#1#%HI#abc#%'')"] b
  have 1: "data_received env0 3 [] (DataBytes (ustr ''XX#1#%HI#abc#%'')) world0 =
      ([LogDebug (ustr ''ip3'') (ustr ''XX#1''), Disconnect 3], None, ustr ''HI#abc#%'', world0)"
    by (simp add: sample_defs receive_buffer_def)
  have d: "get_messages_next (receive_buffer (py env0) [] (DataBytes (ustr ''XX#1#%''))) = Some (ustr ''XX#1'', [])"
     "get_messages_header (receive_buffer (py env0) [] (DataBytes (ustr ''XX#1#%''))) = None"
     "get_messages_next [] = None"
    by (simp_all add: recv_defs sample_defs)
  from unknown_command[OF a, of 0 _ world0 _ "[]" "[]" "DataBytes (ustr ''XX#1#%'')"] b(4) d
  have 2: "data_received env0 0 [] (DataBytes (ustr ''XX#1#%'')) world0 =
      ([LogDebug (ustr ''ip0'') (ustr ''XX#1'')], None, [], world0)"
    by (simp add: sample_defs receive_buffer_def)
  from 1 2 show ?thesis by simp
qed

section \<open>The handshake of a banned client\<close>

lemma validate_one_str:
  "validate_net_cmd B c [VStr s] [T_STR] False = (s \<noteq> [], [VStr s])"
  by (simp add: validate_net_cmd_def)

text \<open>
  C3 (the code as it is). A handshake that matches a ban with a date logs the failed
  connect, sends one \<open>BD\<close> notice with the reason, the ban id and the humanized date, and
  disconnects; the client is not authenticated. A handshake that matches a ban without a
  date raises AttributeError (\<open>'N/A'.humanize()\<close>) before the notice is built: nothing
  is sent and \<open>client.disconnect()\<close> is not called. The claim asks for the notice (with
  \<open>indefinite\<close>) and the disconnect in both cases.
\<close>

theorem handshake_of_banned_client:
  assumes "\<not> is_checked (cl w me)" and "h \<noteq> []"
    and "w1 = upd_client me (\<lambda>c. c\<lparr> hdid := h \<rparr>) w"
    and "find_ban E w1 (ipid (cl w me)) h = Some b"
  shows "(unban_date b = Some d \<longrightarrow>
            net_cmd_hi E me [h] w =
              ([DbAddHdid (ipid (cl w me)) h, DbLogConnect me True,
                SendCommand me (ustr ''BD'')
                  [VStr (reason b @ [13, 10] @ ustr ''ID: '' @ str_int (ban_id b) @ [13, 10]
                         @ ustr ''Until: '' @ humanize E d)],
                Disconnect me], None, w1))
         \<and> (unban_date b = None \<longrightarrow>
            net_cmd_hi E me [h] w = ([DbAddHdid (ipid (cl w me)) h], Some AttributeError, w1))
         \<and> \<not> is_checked (cl w1 me)"
  using assms
  by (simp add: net_cmd_hi_def validate_one_str Let_def upd_client_def ban_message_def)

theorem handshake_of_banned_client_witness:
  "net_cmd_hi env0 3 [ustr ''banned''] world0 =
     ([DbAddHdid (ustr ''ip3'') (ustr ''banned'')], Some AttributeError,
      upd_client 3 (\<lambda>c. c\<lparr> hdid := ustr ''banned'' \<rparr>) world0)
   \<and> fst (net_cmd_hi env0 3 [ustr ''tempban''] world0) =
     [DbAddHdid (ustr ''ip3'') (ustr ''tempban''), DbLogConnect 3 True,
      SendCommand 3 (ustr ''BD'')
        [VStr (ustr ''spam'' @ [13, 10] @ ustr ''ID: 8'' @ [13, 10] @ ustr ''Until: in 2 days'')],
      Disconnect 3]"
proof -
  have a: "\<not> is_checked (cl world0 3)" "ustr ''banned'' \<noteq> []" "ustr ''tempban'' \<noteq> []"
    by (simp_all add: sample_defs)
  have b: "find_ban env0 (upd_client 3 (\<lambda>c. c\<lparr> hdid := ustr ''banned'' \<rparr>) world0) (ipid (cl world0 3))
             (ustr ''banned'') = Some \<lparr> reason = ustr ''spam'', ban_id = 7, unban_date = None \<rparr>"
    by (simp add: sample_defs)
  have c: "find_ban env0 (upd_client 3 (\<lambda>c. c\<lparr> hdid := ustr ''tempban'' \<rparr>) world0) (ipid (cl world0 3))
             (ustr ''tempban'') = Some \<lparr> reason = ustr ''spam'', ban_id = 8, unban_date = Some 1700000000 \<rparr>"
    by (simp add: sample_defs)
  from handshake_of_banned_client[OF a(1) a(2) refl b]
  have 1: "net_cmd_hi env0 3 [ustr ''banned''] world0 =
     ([DbAddHdid (ustr ''ip3'') (ustr ''banned'')], Some AttributeError,
      upd_client 3 (\<lambda>c. c\<lparr> hdid := ustr ''banned'' \<rparr>) world0)"
    by (simp add: sample_defs)
  from handshake_of_banned_client[OF a(1) a(3) refl c, of 1700000000]
  have 2: "fst (net_cmd_hi env0 3 [ustr ''tempban''] world0) =
     [DbAddHdid (ustr ''ip3'') (ustr ''tempban''), DbLogConnect 3 True,
      SendCommand 3 (ustr ''BD'')
        [VStr (ustr ''spam'' @ [13, 10] @ ustr ''ID: 8'' @ [13, 10] @ ustr ''Until: in 2 days'')],
      Disconnect 3]"
    by (simp add: sample_defs str_int_def str_nat.simps)
  from 1 2 show ?thesis by simp
qed

section \<open>Evidence\<close>

text \<open>
  C2, as amended. The evidence handlers call \<open>validate_net_cmd\<close> with its default
  \<open>needs_auth = True\<close>: an authenticated client without a character (\<open>char_id = -1\<close>)
  has its PE, DE and EE commands dropped with no effect. For an authenticated client
  with a character, PE with exactly three fields adds the evidence, and DE (one field)
  and EE (four fields) whose first field is an integer that indexes the client's
  evidence list delete or edit it; each then logs and ends with the rebroadcast of the
  evidence list.
\<close>

theorem evidence_needs_character:
  assumes "is_checked (cl w me)"
  shows "(char_id (cl w me) = - 1 \<longrightarrow>
            net_cmd_pe E me args w = ([], None, w) \<and> net_cmd_de E me args w = ([], None, w)
            \<and> net_cmd_ee E me args w = ([], None, w))
         \<and> (char_id (cl w me) \<noteq> - 1 \<longrightarrow>
            net_cmd_pe E me [n, d, i] w =
              (let w1 = add_evidence E w me n d i (ustr ''all'')
               in ([DbLogRoom (ustr ''evidence.add'') me (area (cl w1 me)) None,
                    BroadcastEvidenceList (area (cl w1 me))], None, w1)))
         \<and> (char_id (cl w me) \<noteq> - 1 \<and> s \<noteq> [] \<and> int_str (py E) s = Some k
              \<and> py_get (evi_list (cl w me)) k = Some g \<longrightarrow>
            net_cmd_de E me [s] w =
              (let w1 = del_evidence E w me g
               in ([DbLogRoom (ustr ''evidence.del'') me (area (cl w1 me)) None,
                    BroadcastEvidenceList (area (cl w1 me))], None, w1))
            \<and> net_cmd_ee E me [s, n, d, i] w =
              (let w1 = edit_evidence E w me g (n, d, i, ustr ''all'')
               in ([DbLogRoom (ustr ''evidence.edit'') me (area (cl w1 me)) None,
                    BroadcastEvidenceList (area (cl w1 me))], None, w1)))"
  using assms
  by (simp add: net_cmd_pe_def net_cmd_de_def net_cmd_ee_def validate_net_cmd_def Let_def)

text \<open>
  The claim C2 as stated fails for a spectator: the client 2 is authenticated, has no
  character, and its PE command with three fields changes nothing and broadcasts nothing.
\<close>

theorem spectator_evidence_is_dropped:
  "is_checked (cl world0 2) \<and> char_id (cl world0 2) = - 1
   \<and> net_cmd_pe env0 2 [ustr ''Knife'', ustr ''A knife'', ustr ''knife.png''] world0
       = ([], None, world0)"
  by (simp add: net_cmd_pe_def validate_net_cmd_def sample_defs)

theorem evidence_needs_character_witness:
  "net_cmd_pe env0 2 [ustr ''Knife'', ustr ''A knife'', ustr ''knife.png''] world0 = ([], None, world0)
   \<and> fst (net_cmd_pe env0 0 [ustr ''Knife'', ustr ''A knife'', ustr ''knife.png''] world0)
       = [DbLogRoom (ustr ''evidence.add'') 0 0 None, BroadcastEvidenceList 0]
   \<and> map evi_name (evidences (ar (snd (snd (net_cmd_pe env0 0
         [ustr ''Knife'', ustr ''A knife'', ustr ''knife.png''] world0))) 0)) = [ustr ''Knife'']
   \<and> fst (net_cmd_de env0 0 [ustr ''0''] world0)
       = [DbLogRoom (ustr ''evidence.del'') 0 0 None, BroadcastEvidenceList 0]
   \<and> fst (net_cmd_ee env0 0 [ustr ''0'', ustr ''Knife'', ustr ''A knife'', ustr ''knife.png''] world0)
       = [DbLogRoom (ustr ''evidence.edit'') 0 0 None, BroadcastEvidenceList 0]"
proof -
  have a: "is_checked (cl world0 2)" "char_id (cl world0 2) = - 1"
     "is_checked (cl world0 0)" "char_id (cl world0 0) \<noteq> - 1"
     "ustr ''0'' \<noteq> []" "int_str (py env0) (ustr ''0'') = Some 0"
     "py_get (evi_list (cl world0 0)) 0 = Some 0"
    by (simp_all add: sample_defs py_get_def py_index_def)
  note s = evidence_needs_character[OF a(1), of env0 "[ustr ''Knife'', ustr ''A knife'', ustr ''knife.png'']"]
  note t = evidence_needs_character[OF a(3), of env0 _ "ustr ''Knife''" "ustr ''A knife''" "ustr ''knife.png''"
             "ustr ''0''" 0 0]
  from s a(2) have 1: "net_cmd_pe env0 2 [ustr ''Knife'', ustr ''A knife'', ustr ''knife.png''] world0 = ([], None, world0)"
    by simp
  from t a have 2: "net_cmd_pe env0 0 [ustr ''Knife'', ustr ''A knife'', ustr ''knife.png''] world0 =
              (let w1 = add_evidence env0 world0 0 (ustr ''Knife'') (ustr ''A knife'') (ustr ''knife.png'') (ustr ''all'')
               in ([DbLogRoom (ustr ''evidence.add'') 0 (area (cl w1 0)) None,
                    BroadcastEvidenceList (area (cl w1 0))], None, w1))"
    and 3: "net_cmd_de env0 0 [ustr ''0''] world0 =
              (let w1 = del_evidence env0 world0 0 0
               in ([DbLogRoom (ustr ''evidence.del'') 0 (area (cl w1 0)) None,
                    BroadcastEvidenceList (area (cl w1 0))], None, w1))"
    and 4: "net_cmd_ee env0 0 [ustr ''0'', ustr ''Knife'', ustr ''A knife'', ustr ''knife.png''] world0 =
              (let w1 = edit_evidence env0 world0 0 0 (ustr ''Knife'', ustr ''A knife'', ustr ''knife.png'', ustr ''all'')
               in ([DbLogRoom (ustr ''evidence.edit'') 0 (area (cl w1 0)) None,
                    BroadcastEvidenceList (area (cl w1 0))], None, w1))"
    by simp_all
  show ?thesis
    unfolding 1 2 3 4 by (simp add: sample_defs upd_area_def Let_def)
qed


section \<open>The name of an OOC message\<close>

lemma validate_two_str:
  "validate_net_cmd B c [VStr a0, VStr a1] [T_STR, T_STR] False
     = (a0 \<noteq> [] \<and> a1 \<noteq> [], [VStr a0, VStr a1])"
  by (simp add: validate_net_cmd_def)

lemmas ct_defs =
  net_cmd_ct_def ct_set_name_def ct_name_notice_def ct_message_def ct_command_def ct_chat_def
  validate_net_cmd_def get_max_char_def dezalgo_def zalgo_char_def scrub_def upd_client_def

text \<open>
  C9, as amended. The client's name, as it stands after lines 745-750, passes the checks
  of an OOC message exactly when it is not empty, has at most 30 characters (a name of
  more than 30 is rejected), holds no character of the category Cf, and starts neither
  with the server's hostname nor with \<open><dollar>G\<close> or \<open><dollar>M\<close>. The checks run in
  this order; the first one that fails sends its own notice to the sender, and the
  handler returns with that notice as its only effect: nothing is broadcast and no
  command is run. When the name passes, the handler goes on with the message.
\<close>

theorem ooc_name_checks:
  assumes "n = name (cl w me)"
  shows "(ct_name_notice E me w = None \<longleftrightarrow>
            n \<noteq> [] \<and> length n \<le> 30 \<and> \<not> list_ex (category_Cf (py E)) n
            \<and> \<not> prefix (hostname (server w)) n \<and> \<not> prefix (ustr ''<dollar>G'') n
            \<and> \<not> prefix (ustr ''<dollar>M'') n)
         \<and> (n = [] \<longrightarrow>
              ct_name_notice E me w = Some ''You must insert a name with at least one letter'')
         \<and> (n \<noteq> [] \<and> length n > 30 \<longrightarrow>
              ct_name_notice E me w
                = Some ''Your OOC name is too long! Limit it to 30 characters.'')
         \<and> (n \<noteq> [] \<and> length n \<le> 30 \<and> list_ex (category_Cf (py E)) n \<longrightarrow>
              ct_name_notice E me w = Some ''You cannot use format characters in your name!'')
         \<and> (n \<noteq> [] \<and> length n \<le> 30 \<and> \<not> list_ex (category_Cf (py E)) n
              \<and> (prefix (hostname (server w)) n \<or> prefix (ustr ''<dollar>G'') n
                   \<or> prefix (ustr ''<dollar>M'') n) \<longrightarrow>
              ct_name_notice E me w = Some ''That name is reserved!'')
         \<and> (is_checked (cl w0 me) \<and> \<not> is_ooc_muted (cl w0 me) \<and> a0 \<noteq> [] \<and> a1 \<noteq> []
              \<and> w = ct_set_name E me a0 w0 \<longrightarrow>
              net_cmd_ct E me [a0, a1] w0 =
                (case ct_name_notice E me w of
                   Some text \<Rightarrow> ([SendOOC me (ustr text)], None, w)
                 | None \<Rightarrow> ct_message E me a1 w))"
proof -
  have "is_checked (cl w0 me) \<and> \<not> is_ooc_muted (cl w0 me) \<and> a0 \<noteq> [] \<and> a1 \<noteq> []
              \<and> w = ct_set_name E me a0 w0 \<longrightarrow>
              net_cmd_ct E me [a0, a1] w0 =
                (case ct_name_notice E me w of
                   Some text \<Rightarrow> ([SendOOC me (ustr text)], None, w)
                 | None \<Rightarrow> ct_message E me a1 w)"
    by (auto simp: net_cmd_ct_def validate_two_str Let_def split: option.splits)
  moreover have "ct_name_notice E me w = None \<longleftrightarrow>
            n \<noteq> [] \<and> length n \<le> 30 \<and> \<not> list_ex (category_Cf (py E)) n
            \<and> \<not> prefix (hostname (server w)) n \<and> \<not> prefix (ustr ''<dollar>G'') n
            \<and> \<not> prefix (ustr ''<dollar>M'') n"
    using assms by (simp add: ct_name_notice_def)
  moreover have "n = [] \<longrightarrow>
              ct_name_notice E me w = Some ''You must insert a name with at least one letter''"
    using assms by (simp add: ct_name_notice_def)
  moreover have "n \<noteq> [] \<and> length n > 30 \<longrightarrow>
              ct_name_notice E me w
                = Some ''Your OOC name is too long! Limit it to 30 characters.''"
    using assms by (simp add: ct_name_notice_def)
  moreover have "n \<noteq> [] \<and> length n \<le> 30 \<and> list_ex (category_Cf (py E)) n \<longrightarrow>
              ct_name_notice E me w = Some ''You cannot use format characters in your name!''"
    using assms by (simp add: ct_name_notice_def)
  moreover have "n \<noteq> [] \<and> length n \<le> 30 \<and> \<not> list_ex (category_Cf (py E)) n
              \<and> (prefix (hostname (server w)) n \<or> prefix (ustr ''<dollar>G'') n
                   \<or> prefix (ustr ''<dollar>M'') n) \<longrightarrow>
              ct_name_notice E me w = Some ''That name is reserved!''"
    using assms by (simp add: ct_name_notice_def)
  ultimately show ?thesis by blast
qed

text \<open>
  The claim C9 as stated asks for a name under 30 characters. A name of exactly 30
  characters is accepted: the message is broadcast to the area.
\<close>

theorem ooc_name_of_30_is_accepted:
  "length (ustr ''aaaaaaaaaaaaaaaaaaaaaaaaaaaaaa'') = 30
   \<and> ct_name_notice env0 0 (ct_set_name env0 0 (ustr ''aaaaaaaaaaaaaaaaaaaaaaaaaaaaaa'') world0) = None
   \<and> fst (net_cmd_ct env0 0 [ustr ''aaaaaaaaaaaaaaaaaaaaaaaaaaaaaa'', ustr ''hi''] world0) =
       [AreaSendCommand 0 (ustr ''CT'') [VStr (ustr ''aaaaaaaaaaaaaaaaaaaaaaaaaaaaaa''), VStr (ustr ''hi'')],
        AreaSendOwnerCommand 0 (ustr ''CT'')
          [VStr (ustr ''[LB]'' @ ustr ''aaaaaaaaaaaaaaaaaaaaaaaaaaaaaa''), VStr (ustr ''hi'')],
        DbLogRoom (ustr ''ooc'') 0 0 (Some (ustr ''hi''))]"
  by (simp add: ct_defs sample_defs Let_def)

theorem ooc_name_checks_witness:
  "net_cmd_ct env0 0 [ustr ''Server admin'', ustr ''hi''] world0 =
     ([SendOOC 0 (ustr ''That name is reserved!'')], None,
      ct_set_name env0 0 (ustr ''Server admin'') world0)
   \<and> fst (net_cmd_ct env0 0 [ustr ''aaaaaaaaaaaaaaaaaaaaaaaaaaaaaaa'', ustr ''hi''] world0) =
     [SendOOC 0 (ustr ''Your OOC name is too long! Limit it to 30 characters.'')]
   \<and> fst (net_cmd_ct env0 0 [ustr ''dave'', ustr ''hi''] world0) =
       [AreaSendCommand 0 (ustr ''CT'') [VStr (ustr ''dave''), VStr (ustr ''hi'')],
        AreaSendOwnerCommand 0 (ustr ''CT'') [VStr (ustr ''[LB]dave''), VStr (ustr ''hi'')],
        DbLogRoom (ustr ''ooc'') 0 0 (Some (ustr ''hi''))]"
proof -
  have a: "is_checked (cl world0 0)" "\<not> is_ooc_muted (cl world0 0)" "ustr ''hi'' \<noteq> []"
      "ustr ''Server admin'' \<noteq> []" "ustr ''aaaaaaaaaaaaaaaaaaaaaaaaaaaaaaa'' \<noteq> []" "ustr ''dave'' \<noteq> []"
    by (simp_all add: sample_defs)
  have n1: "ct_name_notice env0 0 (ct_set_name env0 0 (ustr ''Server admin'') world0)
              = Some ''That name is reserved!''"
    by (simp add: ct_defs sample_defs)
  have n2: "ct_name_notice env0 0 (ct_set_name env0 0 (ustr ''aaaaaaaaaaaaaaaaaaaaaaaaaaaaaaa'') world0)
              = Some ''Your OOC name is too long! Limit it to 30 characters.''"
    by (simp add: ct_defs sample_defs)
  have n3: "ct_name_notice env0 0 (ct_set_name env0 0 (ustr ''dave'') world0) = None"
    by (simp add: ct_defs sample_defs)
  have m3: "fst (ct_message env0 0 (ustr ''hi'') (ct_set_name env0 0 (ustr ''dave'') world0)) =
       [AreaSendCommand 0 (ustr ''CT'') [VStr (ustr ''dave''), VStr (ustr ''hi'')],
        AreaSendOwnerCommand 0 (ustr ''CT'') [VStr (ustr ''[LB]dave''), VStr (ustr ''hi'')],
        DbLogRoom (ustr ''ooc'') 0 0 (Some (ustr ''hi''))]"
    by (simp add: ct_defs sample_defs Let_def)
  from ooc_name_checks[OF refl, where w = "ct_set_name env0 0 (ustr ''Server admin'') world0"
         and me = 0 and E = env0 and ?w0.0 = world0 and ?a0.0 = "ustr ''Server admin''"
         and ?a1.0 = "ustr ''hi''"] a n1
  have 1: "net_cmd_ct env0 0 [ustr ''Server admin'', ustr ''hi''] world0 =
     ([SendOOC 0 (ustr ''That name is reserved!'')], None,
      ct_set_name env0 0 (ustr ''Server admin'') world0)"
    by simp
  from ooc_name_checks[OF refl, where w = "ct_set_name env0 0 (ustr ''aaaaaaaaaaaaaaaaaaaaaaaaaaaaaaa'') world0"
         and me = 0 and E = env0 and ?w0.0 = world0 and ?a0.0 = "ustr ''aaaaaaaaaaaaaaaaaaaaaaaaaaaaaaa''"
         and ?a1.0 = "ustr ''hi''"] a n2
  have 2: "fst (net_cmd_ct env0 0 [ustr ''aaaaaaaaaaaaaaaaaaaaaaaaaaaaaaa'', ustr ''hi''] world0) =
     [SendOOC 0 (ustr ''Your OOC name is too long! Limit it to 30 characters.'')]"
    by simp
  from ooc_name_checks[OF refl, where w = "ct_set_name env0 0 (ustr ''dave'') world0"
         and me = 0 and E = env0 and ?w0.0 = world0 and ?a0.0 = "ustr ''dave''"
         and ?a1.0 = "ustr ''hi''"] a n3 m3
  have 3: "fst (net_cmd_ct env0 0 [ustr ''dave'', ustr ''hi''] world0) =
       [AreaSendCommand 0 (ustr ''CT'') [VStr (ustr ''dave''), VStr (ustr ''hi'')],
        AreaSendOwnerCommand 0 (ustr ''CT'') [VStr (ustr ''[LB]dave''), VStr (ustr ''hi'')],
        DbLogRoom (ustr ''ooc'') 0 0 (Some (ustr ''hi''))]"
    by simp
  from 1 2 3 show ?thesis by simp
qed


section \<open>Partial validation of an IC message\<close>

lemma ms_showname_stores:
  "ms_showname E me m w = (Next m', es, w') \<Longrightarrow> showname (cl w' me) = l_showname m"
  by (auto simp: ms_showname_def Let_def notice_def upd_client_def split: if_splits)

text \<open>
  C1 (the code as it is). Line 486 stores the showname of the message in the client
  before the remaining checks run. In the sample area (showname changes allowed, blank
  posts forbidden) the client 0 has no showname. Its message with a blank text and the
  showname \<open>Nick\<close> is dropped with the blankposting notice, and its message with a
  showname of sixteen characters is dropped with the notice that the showname is too long
  (line 609); neither is broadcast, and both leave the new showname in the client. The
  claim asks that a dropped message leaves every field of the client as it was.
\<close>

theorem dropped_ic_message_changes_showname:
  "showname (cl world0 0) = []
   \<and> (case net_cmd_ms env0 0 (ms_args26 (ustr ''   '') (ustr ''Nick'')) world0 of
        (es, x, w') \<Rightarrow>
          es = [SendOOC 0 (ustr ''Blankposting is forbidden in this area!'')] \<and> x = None
          \<and> showname (cl w' 0) = ustr ''Nick'')
   \<and> (case net_cmd_ms env0 0 (ms_args26 (ustr ''Hello'') (ustr ''0123456789abcdef'')) world0 of
        (es, x, w') \<Rightarrow>
          es = [SendOOC 0 (ustr ''Your IC showname is way too long!'')] \<and> x = None
          \<and> showname (cl w' 0) = ustr ''0123456789abcdef'')"
  by (simp add: ms_defs sample_defs Let_def)

section \<open>Pairing\<close>

lemma pair_scan_None:
  "pair_scan w me ts = None \<longleftrightarrow>
     \<not> (\<exists>t\<in>set ts. char_id (cl w t) = charid_pair (cl w me)
            \<and> charid_pair (cl w t) = char_id (cl w me) \<and> t \<noteq> me
            \<and> pos (cl w t) = pos (cl w me))"
  by (induction ts) auto

lemma pair_scan_Some:
  "pair_scan w me ts = Some t \<Longrightarrow>
     t \<in> set ts \<and> char_id (cl w t) = charid_pair (cl w me)
     \<and> charid_pair (cl w t) = char_id (cl w me) \<and> t \<noteq> me \<and> pos (cl w t) = pos (cl w me)"
  by (induction ts) (auto split: if_splits)

lemma ms_store_pair_me:
  "charid_pair (cl (ms_store_pair me m w) me) = l_charid_pair m"
  "char_id (cl (ms_store_pair me m w) me) = char_id (cl w me)"
  "pos (cl (ms_store_pair me m w) me) = pos (cl w me)"
  "area (cl (ms_store_pair me m w) me) = area (cl w me)"
  "evi_list (cl (ms_store_pair me m w) me) = evi_list (cl w me)"
  by (simp_all add: ms_store_pair_def upd_client_def)

lemma ms_store_pair_other:
  "t \<noteq> me \<Longrightarrow> cl (ms_store_pair me m w) t = cl w t"
  by (simp add: ms_store_pair_def upd_client_def)

lemma ms_store_pair_area:
  "ar (ms_store_pair me m w) = ar w" "my_area (ms_store_pair me m w) me = my_area w me"
  by (simp_all add: ms_store_pair_def upd_client_def my_area_def)

lemma ms_broadcast_first_event:
  assumes "ms_broadcast E me m w = (r, e # es, w')"
  shows "\<exists>a evi. e = AreaSendCommand a (ustr ''MS'')
           (send_args m (ms_pairing (ms_store_pair me m w) me (l_charid_pair m) (l_pair_order m)) evi)"
  using assms
  by (auto simp: ms_broadcast_def Let_def split: option.splits if_splits prod.splits bool.splits)

lemma ms_broadcast_sends:
  assumes "w1 = ms_store_pair me m w"
    and "p = ms_pairing w1 me (l_charid_pair m) (l_pair_order m)"
    and "w2 = (if me \<in> set (afkers (my_area w me)) then toggle_afk E w1 me else w1)"
    and "a = area (cl w2 me)"
  shows "(py_get (evi_list (cl w2 me)) (l_evidence m) = Some evi \<longrightarrow>
            (\<exists>rest w'.
               ms_broadcast E me m w =
                 (Return,
                  [AreaSendCommand a (ustr ''MS'') (send_args m p evi),
                   SendRemoteCommand (l_target_area m) (ustr ''MS'') (send_args m p evi),
                   AreaSendOwnerCommand a (ustr ''MS'')
                     (take 4 (send_args m p evi)
                      @ [VStr (ustr ''['' @ area_abbreviation (ar w2 a) @ ustr '']'' @ l_msg m)]
                      @ drop 5 (send_args m p evi)),
                   SetNextMsgDelay a (length (l_msg m)),
                   DbLogIc me a (l_showname m) (l_msg m)] @ rest, w')
               \<and> (rest = []
                    \<or> rest = [SendOOC me (ustr
                         ''That statement was not recorded because you reached the statement limit.'')])))
         \<and> (py_get (evi_list (cl w2 me)) (l_evidence m) = None \<longrightarrow>
            ms_broadcast E me m w = (Raise IndexError, [], w2))"
  using assms
  by (auto simp: ms_broadcast_def Let_def ms_store_pair_area upd_area_def
           split: option.splits if_splits prod.splits bool.splits)

text \<open>
  C5. For an IC message that asks for a pair (\<open>charid_pair > -1\<close>), the pairing is
  confirmed if and only if another client of the sender's area has the requested
  character, asks for the sender's character and stands at the sender's position. When
  there is none, the paired character id of the outgoing message (element 16) is \<open>-1\<close>.
  When there is one, the outgoing message carries the folder, last sprite, offset and
  flip of such a partner (elements 17, 18, 20 and 21). The outgoing message is what
  \<open>ms_broadcast\<close> sends: whenever the sender's evidence entry can be read, it sends
  exactly these fields to the area, to the remote areas and (with the tagged text) to
  the owners, and otherwise it raises IndexError and sends nothing.
\<close>

theorem pairing_confirmed_iff:
  assumes "l_charid_pair m > - 1"
    and "partner = (\<lambda>t. t \<noteq> me \<and> char_id (cl w t) = l_charid_pair m
                        \<and> charid_pair (cl w t) = char_id (cl w me)
                        \<and> pos (cl w t) = pos (cl w me))"
    and "p = ms_pairing (ms_store_pair me m w) me (l_charid_pair m) (l_pair_order m)"
    and "w2 = (if me \<in> set (afkers (my_area w me))
               then toggle_afk E (ms_store_pair me m w) me else ms_store_pair me m w)"
    and "a = area (cl w2 me)"
  shows "(confirmed p \<longleftrightarrow> (\<exists>t\<in>set (clients (my_area w me)). partner t))
         \<and> (\<not> confirmed p \<longrightarrow> pair_charid p = VInt (- 1))
         \<and> (confirmed p \<longrightarrow> pair_charid p \<noteq> VInt (- 1)
              \<and> (\<exists>t\<in>set (clients (my_area w me)). partner t
                    \<and> other_folder p = claimed_folder (cl w t)
                    \<and> other_emote p = last_sprite (cl w t)
                    \<and> other_offset p = offset_pair (cl w t)
                    \<and> other_flip p = flip (cl w t)))
         \<and> send_args m p evi ! 16 = pair_charid p
         \<and> send_args m p evi ! 17 = VStr (other_folder p)
         \<and> send_args m p evi ! 18 = VStr (other_emote p)
         \<and> send_args m p evi ! 20 = VStr (other_offset p)
         \<and> send_args m p evi ! 21 = VInt (other_flip p)
         \<and> (ms_broadcast E me m w = (r, e # es, w') \<longrightarrow>
              (\<exists>a evi'. e = AreaSendCommand a (ustr ''MS'') (send_args m p evi')))
         \<and> (py_get (evi_list (cl w2 me)) (l_evidence m) = Some evi \<longrightarrow>
              (\<exists>rest w'.
                 ms_broadcast E me m w =
                   (Return,
                    [AreaSendCommand a (ustr ''MS'') (send_args m p evi),
                     SendRemoteCommand (l_target_area m) (ustr ''MS'') (send_args m p evi),
                     AreaSendOwnerCommand a (ustr ''MS'')
                       (take 4 (send_args m p evi)
                        @ [VStr (ustr ''['' @ area_abbreviation (ar w2 a) @ ustr '']'' @ l_msg m)]
                        @ drop 5 (send_args m p evi)),
                     SetNextMsgDelay a (length (l_msg m)),
                     DbLogIc me a (l_showname m) (l_msg m)] @ rest, w')
                 \<and> (rest = []
                      \<or> rest = [SendOOC me (ustr
                           ''That statement was not recorded because you reached the statement limit.'')])))
         \<and> (py_get (evi_list (cl w2 me)) (l_evidence m) = None \<longrightarrow>
              ms_broadcast E me m w = (Raise IndexError, [], w2))"
proof -
  let ?w1 = "ms_store_pair me m w"
  let ?scan = "pair_scan ?w1 me (clients (my_area w me))"
  have p: "p = (case ?scan of
        None \<Rightarrow>
          \<lparr> confirmed = False, pair_charid = VInt (- 1), other_offset = ustr ''0'',
            other_emote = [], other_flip = 0, other_folder = [] \<rparr>
      | Some target \<Rightarrow>
          \<lparr> confirmed = True,
            pair_charid = (if l_pair_order m \<noteq> VStr []
                           then VStr (str_int (l_charid_pair m) @ ustr ''^'' @ py_str (l_pair_order m))
                           else VInt (l_charid_pair m)),
            other_offset = offset_pair (cl ?w1 target),
            other_emote = last_sprite (cl ?w1 target),
            other_flip = flip (cl ?w1 target),
            other_folder = claimed_folder (cl ?w1 target) \<rparr>)"
    using assms(1,3) by (simp add: ms_pairing_def ms_store_pair_area)
  have cond: "\<And>t. (char_id (cl ?w1 t) = charid_pair (cl ?w1 me)
            \<and> charid_pair (cl ?w1 t) = char_id (cl ?w1 me) \<and> t \<noteq> me
            \<and> pos (cl ?w1 t) = pos (cl ?w1 me)) \<longleftrightarrow> partner t"
    using assms(2) by (auto simp: ms_store_pair_me ms_store_pair_other)
  have none: "?scan = None \<longleftrightarrow> \<not> (\<exists>t\<in>set (clients (my_area w me)). partner t)"
    by (simp add: pair_scan_None cond)
  have c1: "confirmed p \<longleftrightarrow> (\<exists>t\<in>set (clients (my_area w me)). partner t)"
    using none by (cases ?scan) (simp_all add: p)
  have c2: "\<not> confirmed p \<longrightarrow> pair_charid p = VInt (- 1)"
    by (cases ?scan) (simp_all add: p)
  have c3: "confirmed p \<longrightarrow> pair_charid p \<noteq> VInt (- 1)
              \<and> (\<exists>t\<in>set (clients (my_area w me)). partner t
                    \<and> other_folder p = claimed_folder (cl w t)
                    \<and> other_emote p = last_sprite (cl w t)
                    \<and> other_offset p = offset_pair (cl w t)
                    \<and> other_flip p = flip (cl w t))"
  proof (cases ?scan)
    case None
    then show ?thesis by (simp add: p)
  next
    case (Some t)
    from pair_scan_Some[OF Some] cond[of t] have t: "t \<in> set (clients (my_area w me))" "partner t" "t \<noteq> me"
      by auto
    have "pair_charid p \<noteq> VInt (- 1)" using Some assms(1) by (simp add: p)
    moreover have "other_folder p = claimed_folder (cl w t)" "other_emote p = last_sprite (cl w t)"
      "other_offset p = offset_pair (cl w t)" "other_flip p = flip (cl w t)"
      using Some t(3) by (simp_all add: p ms_store_pair_other)
    ultimately show ?thesis using t by blast
  qed
  have c4: "send_args m p evi ! 16 = pair_charid p" "send_args m p evi ! 17 = VStr (other_folder p)"
    "send_args m p evi ! 18 = VStr (other_emote p)" "send_args m p evi ! 20 = VStr (other_offset p)"
    "send_args m p evi ! 21 = VInt (other_flip p)"
    by (simp_all add: send_args_def)
  have c5: "ms_broadcast E me m w = (r, e # es, w') \<longrightarrow>
              (\<exists>a evi'. e = AreaSendCommand a (ustr ''MS'') (send_args m p evi'))"
    using ms_broadcast_first_event[of E me m w r e es w'] assms(3) by blast
  note c6 = ms_broadcast_sends[OF refl assms(3) assms(4) assms(5), of evi]
  from c1 c2 c3 c4 c5 c6 show ?thesis by blast
qed

theorem pairing_confirmed_iff_witness:
  "l_charid_pair locals0 = 2
   \<and> confirmed (ms_pairing (ms_store_pair 0 locals0 world0) 0 2 (l_pair_order locals0))
   \<and> other_folder (ms_pairing (ms_store_pair 0 locals0 world0) 0 2 (l_pair_order locals0))
       = ustr ''Edgeworth''
   \<and> other_emote (ms_pairing (ms_store_pair 0 locals0 world0) 0 2 (l_pair_order locals0))
       = ustr ''normal''
   \<and> other_offset (ms_pairing (ms_store_pair 0 locals0 world0) 0 2 (l_pair_order locals0))
       = ustr ''10''
   \<and> other_flip (ms_pairing (ms_store_pair 0 locals0 world0) 0 2 (l_pair_order locals0)) = 1
   \<and> \<not> confirmed (ms_pairing (ms_store_pair 0 locals0 world_apart) 0 2 (l_pair_order locals0))
   \<and> pair_charid (ms_pairing (ms_store_pair 0 locals0 world_apart) 0 2 (l_pair_order locals0))
       = VInt (- 1)
   \<and> (\<exists>rest w'.
         ms_broadcast env0 0 locals0 world0 =
           (Return,
            AreaSendCommand 0 (ustr ''MS'')
              (send_args locals0
                 (ms_pairing (ms_store_pair 0 locals0 world0) 0 2 (l_pair_order locals0)) 0)
            # rest, w'))
   \<and> (case fst (net_cmd_ms env0 0 (ms_args26 (ustr ''Hello there'') (ustr ''Nick'')) world0) of
         AreaSendCommand a c sa # es \<Rightarrow>
           a = 0 \<and> c = ustr ''MS'' \<and> sa ! 16 = VStr (ustr ''2^0'')
           \<and> sa ! 17 = VStr (ustr ''Edgeworth'') \<and> sa ! 18 = VStr (ustr ''normal'')
           \<and> sa ! 20 = VStr (ustr ''10'') \<and> sa ! 21 = VInt 1
       | _ \<Rightarrow> False)
   \<and> (case fst (net_cmd_ms env0 0 (ms_args26 (ustr ''Hello there'') (ustr ''Nick'')) world_apart) of
         AreaSendCommand a c sa # es \<Rightarrow>
           a = 0 \<and> c = ustr ''MS'' \<and> sa ! 16 = VInt (- 1) \<and> sa ! 17 = VStr []
           \<and> sa ! 18 = VStr [] \<and> sa ! 20 = VStr (ustr ''0'') \<and> sa ! 21 = VInt 0
       | _ \<Rightarrow> False)"
proof -
  let ?partner = "\<lambda>w t. t \<noteq> 0 \<and> char_id (cl w t) = l_charid_pair locals0
                        \<and> charid_pair (cl w t) = char_id (cl w 0)
                        \<and> pos (cl w t) = pos (cl w 0)"
  have cp: "l_charid_pair locals0 = 2" "l_charid_pair locals0 > - 1"
    by (simp_all add: locals0_defs sample_defs)
  have only: "\<And>t. t \<in> set (clients (my_area world0 0)) \<Longrightarrow> ?partner world0 t \<Longrightarrow> t = 1"
    by (auto simp: sample_defs my_area_def cp)
  have one: "\<exists>t\<in>set (clients (my_area world0 0)). ?partner world0 t"
    by (simp add: sample_defs my_area_def cp)
  have none: "\<not> (\<exists>t\<in>set (clients (my_area world_apart 0)). ?partner world_apart t)"
    by (simp add: sample_defs my_area_def cp world_apart_def upd_client_def)
  have c1: "cl world0 1 = client1" by (simp add: world0_def)
  note T = pairing_confirmed_iff[OF cp(2) refl refl refl refl, where me = 0]
  from T[where w = world0] one
  have a: "confirmed (ms_pairing (ms_store_pair 0 locals0 world0) 0 (l_charid_pair locals0) (l_pair_order locals0))"
    by blast
  with T[where w = world0] obtain t where t: "t \<in> set (clients (my_area world0 0))" "?partner world0 t"
     "other_folder (ms_pairing (ms_store_pair 0 locals0 world0) 0 (l_charid_pair locals0) (l_pair_order locals0))
        = claimed_folder (cl world0 t)"
     "other_emote (ms_pairing (ms_store_pair 0 locals0 world0) 0 (l_charid_pair locals0) (l_pair_order locals0))
        = last_sprite (cl world0 t)"
     "other_offset (ms_pairing (ms_store_pair 0 locals0 world0) 0 (l_charid_pair locals0) (l_pair_order locals0))
        = offset_pair (cl world0 t)"
     "other_flip (ms_pairing (ms_store_pair 0 locals0 world0) 0 (l_charid_pair locals0) (l_pair_order locals0))
        = flip (cl world0 t)"
    by blast
  from only[OF t(1,2)] have t1: "t = 1" .
  from T[where w = world_apart] none
  have b: "\<not> confirmed (ms_pairing (ms_store_pair 0 locals0 world_apart) 0 (l_charid_pair locals0) (l_pair_order locals0))"
    "pair_charid (ms_pairing (ms_store_pair 0 locals0 world_apart) 0 (l_charid_pair locals0) (l_pair_order locals0)) = VInt (- 1)"
    by blast+
  have w2: "(if 0 \<in> set (afkers (my_area world0 0))
             then toggle_afk env0 (ms_store_pair 0 locals0 world0) 0
             else ms_store_pair 0 locals0 world0) = ms_store_pair 0 locals0 world0"
    by (simp add: sample_defs my_area_def)
  have ev: "py_get (evi_list (cl (ms_store_pair 0 locals0 world0) 0)) (l_evidence locals0) = Some 0"
    and ar0: "area (cl (ms_store_pair 0 locals0 world0) 0) = 0"
    by (simp_all add: ms_store_pair_me locals0_defs sample_defs py_get_def py_index_def)
  note S = T[where w = world0 and E = env0 and evi = 0, unfolded w2 ar0,
               THEN conjunct2, THEN conjunct2, THEN conjunct2, THEN conjunct2, THEN conjunct2,
               THEN conjunct2, THEN conjunct2, THEN conjunct2, THEN conjunct2, THEN conjunct1,
               THEN mp, OF ev]
  then obtain rest w' where
    "ms_broadcast env0 0 locals0 world0 =
       (Return,
        [AreaSendCommand 0 (ustr ''MS'')
           (send_args locals0
              (ms_pairing (ms_store_pair 0 locals0 world0) 0 (l_charid_pair locals0)
                 (l_pair_order locals0)) 0),
         SendRemoteCommand (l_target_area locals0) (ustr ''MS'')
           (send_args locals0
              (ms_pairing (ms_store_pair 0 locals0 world0) 0 (l_charid_pair locals0)
                 (l_pair_order locals0)) 0),
         AreaSendOwnerCommand 0 (ustr ''MS'')
           (take 4 (send_args locals0
              (ms_pairing (ms_store_pair 0 locals0 world0) 0 (l_charid_pair locals0)
                 (l_pair_order locals0)) 0)
            @ [VStr (ustr ''['' @ area_abbreviation (ar (ms_store_pair 0 locals0 world0) 0)
                     @ ustr '']'' @ l_msg locals0)]
            @ drop 5 (send_args locals0
              (ms_pairing (ms_store_pair 0 locals0 world0) 0 (l_charid_pair locals0)
                 (l_pair_order locals0)) 0)),
         SetNextMsgDelay 0 (length (l_msg locals0)),
         DbLogIc 0 0 (l_showname locals0) (l_msg locals0)] @ rest, w')"
    by blast
  then have sent: "\<exists>rest w'.
         ms_broadcast env0 0 locals0 world0 =
           (Return,
            AreaSendCommand 0 (ustr ''MS'')
              (send_args locals0
                 (ms_pairing (ms_store_pair 0 locals0 world0) 0 2 (l_pair_order locals0)) 0)
            # rest, w')"
    unfolding cp(1) by simp
  have run: "(case fst (net_cmd_ms env0 0 (ms_args26 (ustr ''Hello there'') (ustr ''Nick'')) world0) of
         AreaSendCommand a c sa # es \<Rightarrow>
           a = 0 \<and> c = ustr ''MS'' \<and> sa ! 16 = VStr (ustr ''2^0'')
           \<and> sa ! 17 = VStr (ustr ''Edgeworth'') \<and> sa ! 18 = VStr (ustr ''normal'')
           \<and> sa ! 20 = VStr (ustr ''10'') \<and> sa ! 21 = VInt 1
       | _ \<Rightarrow> False)"
    by (simp add: ms_defs sample_defs Let_def str_nat.simps)
  have run_apart: "(case fst (net_cmd_ms env0 0 (ms_args26 (ustr ''Hello there'') (ustr ''Nick'')) world_apart) of
         AreaSendCommand a c sa # es \<Rightarrow>
           a = 0 \<and> c = ustr ''MS'' \<and> sa ! 16 = VInt (- 1) \<and> sa ! 17 = VStr []
           \<and> sa ! 18 = VStr [] \<and> sa ! 20 = VStr (ustr ''0'') \<and> sa ! 21 = VInt 0
       | _ \<Rightarrow> False)"
    by (simp add: ms_defs sample_defs world_apart_def Let_def)
  have model: "l_charid_pair locals0 = 2
   \<and> confirmed (ms_pairing (ms_store_pair 0 locals0 world0) 0 2 (l_pair_order locals0)) \<and> other_folder (ms_pairing (ms_store_pair 0 locals0 world0) 0 2 (l_pair_order locals0)) = ustr ''Edgeworth'' \<and> other_emote (ms_pairing (ms_store_pair 0 locals0 world0) 0 2 (l_pair_order locals0)) = ustr ''normal''
   \<and> other_offset (ms_pairing (ms_store_pair 0 locals0 world0) 0 2 (l_pair_order locals0)) = ustr ''10'' \<and> other_flip (ms_pairing (ms_store_pair 0 locals0 world0) 0 2 (l_pair_order locals0)) = 1
   \<and> \<not> confirmed (ms_pairing (ms_store_pair 0 locals0 world_apart) 0 2 (l_pair_order locals0))
   \<and> pair_charid (ms_pairing (ms_store_pair 0 locals0 world_apart) 0 2 (l_pair_order locals0))
       = VInt (- 1)"
    using a b t(3-6) unfolding t1 c1 cp(1) by (simp add: client1_def client0_def)
  from model sent run run_apart show ?thesis by blast
qed

section \<open>The repeat guard\<close>

lemma ms_back_guard:
  assumes "ms_transform E me (ms_shouts (my_area w me) (ms_non_int_pres_only (my_area w me)
             (ms_nonint_pre m0))) w = (Next m, es0, w0)"
    and "ms_repeat_guard me m w = (Return, es, w)"
  shows "ms_back E me m0 w = (Return, es, w)"
proof -
  from assms(1) have "es0 = []" "w0 = w"
    by (auto simp: ms_transform_def Let_def split: if_splits)
  with assms show ?thesis
    by (simp add: ms_back_def ms_downgrade_def and_then_def)
qed

lemma send_args_4_8:
  "py_get (send_args m p evi) 8 = Some (VInt (l_cid m))"
  "py_get (send_args m p evi) 4 = Some (VStr (l_msg m))"
  by (simp_all add: send_args_def py_get_def py_index_def)

lemma ms_broadcast_last:
  assumes frame: "\<forall>w a s. (\<forall>i. last_ic_message (ar (snd (add_statement E w a s)) i)
                              = last_ic_message (ar w i))
                        \<and> (\<forall>c. area (cl (snd (add_statement E w a s)) c) = area (cl w c))"
    and b: "ms_broadcast E me m w = (r, e # es, w')"
  shows "\<exists>p evi. last_ic_message (my_area w' me) = Some (send_args m p evi)"
proof -
  let ?w1 = "ms_store_pair me m w"
  let ?p = "ms_pairing ?w1 me (l_charid_pair m) (l_pair_order m)"
  let ?w2 = "if me \<in> set (afkers (my_area ?w1 me)) then toggle_afk E ?w1 me else ?w1"
  from b obtain evi where evi: "py_get (evi_list (cl ?w2 me)) (l_evidence m) = Some evi"
    by (cases "py_get (evi_list (cl ?w2 me)) (l_evidence m)") (auto simp: ms_broadcast_def Let_def)
  let ?sa = "send_args m ?p evi"
  let ?a = "area (cl ?w2 me)"
  let ?w3 = "upd_area ?a (\<lambda>x. x\<lparr> last_ic_message := Some ?sa \<rparr>) ?w2"
  let ?w4 = "if is_recording (ar ?w3 ?a)
             then upd_area ?a (\<lambda>x. x\<lparr> recorded_messages := recorded_messages x @ [l_args m] \<rparr>) ?w3
             else ?w3"
  have w4: "last_ic_message (ar ?w4 ?a) = Some ?sa" "\<And>c. area (cl ?w4 c) = area (cl ?w2 c)"
    by (simp_all add: upd_area_def)
  have w': "w' = ?w4 \<or> w' = snd (add_statement E ?w4 ?a ?sa)"
    using b evi
    by (auto simp: ms_broadcast_def Let_def split: if_splits prod.splits bool.splits)
  then have "last_ic_message (ar w' ?a) = Some ?sa \<and> area (cl w' me) = ?a"
    using w4 frame by auto
  then show ?thesis by (auto simp: my_area_def)
qed

text \<open>
  C6, as amended. The guard applies to a transformed text that is not blank (not empty
  after stripping whitespace). Such a message is rejected, with a private notice and
  without any broadcast, when the area's last IC message exists, has the sender's
  character id and has, trailing whitespace apart, the same text. A last message from
  another character id does not reject it, nor does an area without a last message. A
  message that is broadcast becomes the area's last IC message (\<open>add_statement\<close>, a
  method of the testimony, is taken to leave that record and the clients' areas alone):
  the next message of the area is rejected exactly when it is not blank and repeats the
  character id and the trimmed text of that one, so a different message in between
  resets the guard.
\<close>

theorem repeat_guard:
  assumes "repeated = ustr ''Your message is a repeat of the last one. Don't spam!''"
  shows "(py_strip (l_msg m) \<noteq> [] \<and> last_ic_message (my_area w me) = Some lm
            \<and> py_get lm 8 = Some (VInt (l_cid m)) \<and> py_get lm 4 = Some (VStr t)
            \<and> py_rstrip (l_msg m) = py_rstrip t \<longrightarrow>
            ms_repeat_guard me m w = (Return, [SendOOC me repeated], w)
            \<and> (ms_transform E me (ms_shouts (my_area w me) (ms_non_int_pres_only (my_area w me)
                  (ms_nonint_pre m0))) w = (Next m, es0, w0) \<longrightarrow>
                ms_back E me m0 w = (Return, [SendOOC me repeated], w)))
         \<and> (last_ic_message (my_area w me) = Some lm \<and> py_get lm 8 = Some c
            \<and> c \<noteq> VInt (l_cid m) \<longrightarrow>
            ms_repeat_guard me m w = (Next m, [], w))
         \<and> (last_ic_message (my_area w me) = None \<or> py_strip (l_msg m) = [] \<longrightarrow>
            ms_repeat_guard me m w = (Next m, [], w))
         \<and> ((\<forall>w a s. (\<forall>i. last_ic_message (ar (snd (add_statement E w a s)) i)
                          = last_ic_message (ar w i))
                    \<and> (\<forall>c. area (cl (snd (add_statement E w a s)) c) = area (cl w c)))
            \<and> ms_broadcast E me m w = (r, e # es, w') \<and> area (cl w' me2) = area (cl w' me) \<longrightarrow>
            ms_repeat_guard me2 m2 w' =
              (if py_strip (l_msg m2) \<noteq> [] \<and> l_cid m2 = l_cid m
                  \<and> py_rstrip (l_msg m2) = py_rstrip (l_msg m)
               then (Return, [SendOOC me2 repeated], w')
               else (Next m2, [], w')))"
proof -
  have g1: "py_strip (l_msg m) \<noteq> [] \<and> last_ic_message (my_area w me) = Some lm
            \<and> py_get lm 8 = Some (VInt (l_cid m)) \<and> py_get lm 4 = Some (VStr t)
            \<and> py_rstrip (l_msg m) = py_rstrip t \<longrightarrow>
            ms_repeat_guard me m w = (Return, [SendOOC me repeated], w)"
    using assms by (simp add: ms_repeat_guard_def notice_def)
  have g1b: "ms_repeat_guard me m w = (Return, [SendOOC me repeated], w) \<longrightarrow>
             ms_transform E me (ms_shouts (my_area w me) (ms_non_int_pres_only (my_area w me)
                  (ms_nonint_pre m0))) w = (Next m, es0, w0) \<longrightarrow>
                ms_back E me m0 w = (Return, [SendOOC me repeated], w)"
    using ms_back_guard by blast
  have g2: "last_ic_message (my_area w me) = Some lm \<and> py_get lm 8 = Some c
            \<and> c \<noteq> VInt (l_cid m) \<longrightarrow> ms_repeat_guard me m w = (Next m, [], w)"
    by (auto simp: ms_repeat_guard_def)
  have g3: "last_ic_message (my_area w me) = None \<or> py_strip (l_msg m) = [] \<longrightarrow>
            ms_repeat_guard me m w = (Next m, [], w)"
    by (auto simp: ms_repeat_guard_def)
  have g4: "(\<forall>w a s. (\<forall>i. last_ic_message (ar (snd (add_statement E w a s)) i)
                          = last_ic_message (ar w i))
                    \<and> (\<forall>c. area (cl (snd (add_statement E w a s)) c) = area (cl w c)))
            \<and> ms_broadcast E me m w = (r, e # es, w') \<and> area (cl w' me2) = area (cl w' me) \<longrightarrow>
            ms_repeat_guard me2 m2 w' =
              (if py_strip (l_msg m2) \<noteq> [] \<and> l_cid m2 = l_cid m
                  \<and> py_rstrip (l_msg m2) = py_rstrip (l_msg m)
               then (Return, [SendOOC me2 repeated], w')
               else (Next m2, [], w'))"
  proof (intro impI, elim conjE)
    assume frame: "\<forall>w a s. (\<forall>i. last_ic_message (ar (snd (add_statement E w a s)) i)
                          = last_ic_message (ar w i))
                    \<and> (\<forall>c. area (cl (snd (add_statement E w a s)) c) = area (cl w c))"
      and b: "ms_broadcast E me m w = (r, e # es, w')"
      and same: "area (cl w' me2) = area (cl w' me)"
    from ms_broadcast_last[OF frame b] obtain p evi where
      "last_ic_message (my_area w' me) = Some (send_args m p evi)" by blast
    with same have "last_ic_message (my_area w' me2) = Some (send_args m p evi)"
      by (simp add: my_area_def)
    then show "ms_repeat_guard me2 m2 w' =
              (if py_strip (l_msg m2) \<noteq> [] \<and> l_cid m2 = l_cid m
                  \<and> py_rstrip (l_msg m2) = py_rstrip (l_msg m)
               then (Return, [SendOOC me2 repeated], w')
               else (Next m2, [], w'))"
      using assms by (simp add: ms_repeat_guard_def send_args_4_8 notice_def)
  qed
  from g1 g1b g2 g3 g4 show ?thesis by blast
qed

text \<open>
  The claim C6 as stated fails for a text of one space, which is not empty. Where blank
  posts are allowed, the client 0 sends it twice: the first message is recorded as the
  area's last IC message, with the same character id and the same text, and the second
  one is broadcast again.
\<close>

theorem blank_repeat_is_broadcast:
  "ustr '' '' \<noteq> []
   \<and> (case net_cmd_ms env0 0 (ms_args26 (ustr '' '') []) world_blank of
        (es1, x1, w1) \<Rightarrow>
          (case last_ic_message (ar w1 0) of
             None \<Rightarrow> False
           | Some lm \<Rightarrow> lm ! 4 = VStr (ustr '' '') \<and> lm ! 8 = VInt 1)
          \<and> (case net_cmd_ms env0 0 (ms_args26 (ustr '' '') []) w1 of
               (es2, x2, w2) \<Rightarrow>
                 x2 = None \<and> length es2 = 5
                 \<and> (case hd es2 of
                      AreaSendCommand a c sa \<Rightarrow> c = ustr ''MS'' \<and> sa ! 4 = VStr (ustr '' '')
                    | _ \<Rightarrow> False)))"
  by (simp add: ms_defs sample_defs world_blank_def Let_def)


theorem repeat_guard_witness:
  "\<exists>r e es w'.
      ms_broadcast env0 0 locals0 world0 = (r, e # es, w')
      \<and> ms_repeat_guard 0 locals0 w'
          = (Return, [SendOOC 0 (ustr ''Your message is a repeat of the last one. Don't spam!'')], w')
      \<and> ms_repeat_guard 1 (locals0\<lparr> l_cid := 2 \<rparr>) w' = (Next (locals0\<lparr> l_cid := 2 \<rparr>), [], w')
      \<and> ms_repeat_guard 0 (locals0\<lparr> l_msg := ustr ''Objection!'' \<rparr>) w'
          = (Next (locals0\<lparr> l_msg := ustr ''Objection!'' \<rparr>), [], w')"
proof -
  have "\<exists>r e es w'. ms_broadcast env0 0 locals0 world0 = (r, e # es, w')
          \<and> area (cl w' 1) = area (cl w' 0)"
    by (simp add: ms_defs sample_defs locals0_defs Let_def)
  then obtain r e es w' where b: "ms_broadcast env0 0 locals0 world0 = (r, e # es, w')"
    and same: "area (cl w' 1) = area (cl w' 0)" by blast
  have frame: "\<forall>w a s. (\<forall>i. last_ic_message (ar (snd (add_statement env0 w a s)) i)
                          = last_ic_message (ar w i))
                    \<and> (\<forall>c. area (cl (snd (add_statement env0 w a s)) c) = area (cl w c))"
    by (simp add: env0_def)
  have g: "\<And>me2 m2. area (cl w' me2) = area (cl w' 0) \<Longrightarrow>
            ms_repeat_guard me2 m2 w' =
              (if py_strip (l_msg m2) \<noteq> [] \<and> l_cid m2 = l_cid locals0
                  \<and> py_rstrip (l_msg m2) = py_rstrip (l_msg locals0)
               then (Return, [SendOOC me2 (ustr ''Your message is a repeat of the last one. Don't spam!'')], w')
               else (Next m2, [], w'))"
    using repeat_guard[OF refl, where E = env0 and me = 0 and m = locals0 and w = world0
             and r = r and e = e and es = es and w' = w'] frame b
    by blast
  have v: "l_cid locals0 = 1" "l_msg locals0 = ustr ''Hello there''"
    "py_strip (ustr ''Hello there'') \<noteq> []"
    "py_rstrip (ustr ''Objection!'') \<noteq> py_rstrip (ustr ''Hello there'')"
    by (simp_all add: locals0_defs sample_defs py_strip_def py_rstrip_def py_isspace_def)
  from g[OF refl, of locals0] g[OF same, of "locals0\<lparr> l_cid := 2 \<rparr>"]
       g[OF refl, of "locals0\<lparr> l_msg := ustr ''Objection!'' \<rparr>"] v b
  show ?thesis by (intro exI[of _ r] exI[of _ e] exI[of _ es] exI[of _ w']) simp
qed


end
